theory Spec2Isabelle
  imports Complex_Main
begin

section \<open>Vectors\<close>

text \<open>
  The physics core computes on numpy arrays of three floats. The embedding takes the
  numbers to be reals: arithmetic is exact and rounding is outside the model. Where the
  source divides an array by a norm that can be zero, numpy yields NaN or Inf components
  instead of raising; such results are modelled as \<open>None\<close> at the place they arise.
\<close>

type_synonym vec3 = "real \<times> real \<times> real"

fun vadd :: "vec3 \<Rightarrow> vec3 \<Rightarrow> vec3" where
  "vadd (a, b, c) (d, e, f) = (a + d, b + e, c + f)"

fun vsub :: "vec3 \<Rightarrow> vec3 \<Rightarrow> vec3" where
  "vsub (a, b, c) (d, e, f) = (a - d, b - e, c - f)"

fun vneg :: "vec3 \<Rightarrow> vec3" where
  "vneg (a, b, c) = (- a, - b, - c)"

fun smul :: "vec3 \<Rightarrow> real \<Rightarrow> vec3" where
  "smul (a, b, c) k = (a * k, b * k, c * k)"

fun sdiv :: "vec3 \<Rightarrow> real \<Rightarrow> vec3" where
  "sdiv (a, b, c) k = (a / k, b / k, c / k)"

fun dot :: "vec3 \<Rightarrow> vec3 \<Rightarrow> real" where
  "dot (a, b, c) (d, e, f) = a * d + b * e + c * f"

fun cross :: "vec3 \<Rightarrow> vec3 \<Rightarrow> vec3" where
  "cross (a, b, c) (d, e, f) = (b * f - c * e, c * d - a * f, a * e - b * d)"

definition linalg_norm :: "vec3 \<Rightarrow> real" where
  "linalg_norm v = sqrt (dot v v)"

definition zeros :: vec3 where
  "zeros = (0, 0, 0)"

fun vx :: "vec3 \<Rightarrow> real" where "vx (a, b, c) = a"
fun vy :: "vec3 \<Rightarrow> real" where "vy (a, b, c) = b"
fun vz :: "vec3 \<Rightarrow> real" where "vz (a, b, c) = c"

section \<open>Shape intersection: \<open>CollisionDetector\<close>\<close>

text \<open>
  \<open>check_sphere_sphere\<close> (collision.py, lines 11-41). The result pair is the hit flag
  and the optional normal.
\<close>

definition check_sphere_sphere :: "vec3 \<Rightarrow> real \<Rightarrow> vec3 \<Rightarrow> real \<Rightarrow> bool \<times> vec3 option" where
  "check_sphere_sphere pos1 radius1 pos2 radius2 =
     (let direction = vsub pos2 pos1;
          distance_squared = dot direction direction;
          min_distance = radius1 + radius2
      in if distance_squared < min_distance * min_distance
         then (if distance_squared > 0.0001
               then (True, Some (sdiv direction (sqrt distance_squared)))
               else (True, Some (0, 1, 0)))
         else (False, None))"

text \<open>
  \<open>check_sphere_box\<close> (collision.py, lines 43-99). \<open>index_of\<close> is Python's
  \<open>list.index\<close> on a list that holds the element, \<open>list_min\<close> is \<open>min\<close> of a
  non-empty list.
\<close>

fun index_of :: "real list \<Rightarrow> real \<Rightarrow> nat" where
  "index_of [] v = 0"
| "index_of (x # xs) v = (if x = v then 0 else Suc (index_of xs v))"

fun list_min :: "real list \<Rightarrow> real" where
  "list_min [] = 0"
| "list_min [x] = x"
| "list_min (x # xs) = min x (list_min xs)"

fun check_sphere_box :: "vec3 \<Rightarrow> real \<Rightarrow> vec3 \<Rightarrow> vec3 \<Rightarrow> bool \<times> vec3 option" where
  "check_sphere_box (sx, sy, sz) sphere_radius (bx, by, bz) (hx, hy, hz) =
     (let closest_point = (max (bx - hx) (min sx (bx + hx)),
                           max (by - hy) (min sy (by + hy)),
                           max (bz - hz) (min sz (bz + hz)));
          direction = vsub (sx, sy, sz) closest_point;
          distance_squared = dot direction direction
      in if distance_squared < sphere_radius * sphere_radius
         then (if distance_squared > 0.0001
               then (True, Some (sdiv direction (sqrt distance_squared)))
               else (let distances = [\<bar>sx - (bx - hx)\<bar>, \<bar>sx - (bx + hx)\<bar>,
                                      \<bar>sy - (by - hy)\<bar>, \<bar>sy - (by + hy)\<bar>,
                                      \<bar>sz - (bz - hz)\<bar>, \<bar>sz - (bz + hz)\<bar>];
                         min_index = index_of distances (list_min distances);
                         normals = [(-1, 0, 0), (1, 0, 0), (0, -1, 0),
                                    (0, 1, 0), (0, 0, -1), (0, 0, 1)]
                     in (True, Some (normals ! min_index))))
         else (False, None))"

text \<open>\<open>check_box_box\<close> (collision.py, lines 101-145).\<close>

fun check_box_box :: "vec3 \<Rightarrow> vec3 \<Rightarrow> vec3 \<Rightarrow> vec3 \<Rightarrow> bool \<times> vec3 option" where
  "check_box_box (p1x, p1y, p1z) (h1x, h1y, h1z) (p2x, p2y, p2z) (h2x, h2y, h2z) =
     (let x_overlap = (p1x + h1x \<ge> p2x - h2x \<and> p2x + h2x \<ge> p1x - h1x);
          y_overlap = (p1y + h1y \<ge> p2y - h2y \<and> p2y + h2y \<ge> p1y - h1y);
          z_overlap = (p1z + h1z \<ge> p2z - h2z \<and> p2z + h2z \<ge> p1z - h1z)
      in if x_overlap \<and> y_overlap \<and> z_overlap
         then (let x_depth = min (p1x + h1x - (p2x - h2x)) (p2x + h2x - (p1x - h1x));
                   y_depth = min (p1y + h1y - (p2y - h2y)) (p2y + h2y - (p1y - h1y));
                   z_depth = min (p1z + h1z - (p2z - h2z)) (p2z + h2z - (p1z - h1z));
                   normal = (if x_depth \<le> y_depth \<and> x_depth \<le> z_depth
                             then (if p1x < p2x then (1, 0, 0) else (-1, 0, 0))
                             else if y_depth \<le> x_depth \<and> y_depth \<le> z_depth
                             then (if p1y < p2y then (0, 1, 0) else (0, -1, 0))
                             else (if p1z < p2z then (0, 0, 1) else (0, 0, -1)))
               in (True, Some normal))
         else (False, None))"

subsection \<open>Ray casting\<close>

text \<open>
  The exceptions of the source, as values. \<open>KeyError\<close> and \<open>ZeroDivisionError\<close> are the
  Python exceptions. \<open>NonFinite\<close> is no exception: it marks a numpy division by zero,
  which warns and yields NaN or Inf. The model holds finite reals only and stops there
  with \<open>NonFinite\<close>; what the source goes on to compute from such values is outside it.
\<close>

datatype error = KeyError | ZeroDivisionError | NonFinite

text \<open>
  A candidate object of \<open>ray_cast\<close>: a dict with the keys \<open>type\<close> and \<open>position\<close>,
  and \<open>radius\<close> or \<open>half_size\<close> as the type asks; a key that may be absent is an
  option.
\<close>

record ray_object =
  ro_type :: string
  ro_position :: vec3
  ro_radius :: "real option"
  ro_half_size :: "vec3 option"

record hit_info =
  h_object :: ray_object
  h_distance :: real
  h_point :: vec3
  h_normal :: vec3

text \<open>
  Lines 179-199: the intersection distance of the ray with a sphere; \<open>None\<close> is the
  \<open>continue\<close> of the source (sphere behind the origin, or the ray passes it by).
\<close>

definition ray_sphere_distance :: "vec3 \<Rightarrow> vec3 \<Rightarrow> vec3 \<Rightarrow> real \<Rightarrow> real option" where
  "ray_sphere_distance ray_origin ray_direction sphere_pos sphere_radius =
     (let offset = vsub sphere_pos ray_origin;
          projected_distance = dot offset ray_direction
      in if projected_distance < 0 then None
         else (let closest_point = vadd ray_origin (smul ray_direction projected_distance);
                   diff = vsub closest_point sphere_pos;
                   closest_point_dist_squared = dot diff diff
               in if closest_point_dist_squared > sphere_radius * sphere_radius then None
                  else (let half_chord = sqrt (sphere_radius * sphere_radius - closest_point_dist_squared)
                        in Some (projected_distance - half_chord))))"

text \<open>
  Lines 215-250: the slab loop. Its state is \<open>(t_min, t_max, hit_normal_axis,
  hit_normal_sign)\<close>; \<open>t_min = None\<close> stands for the initial \<open>-inf\<close> and
  \<open>t_max = None\<close> for the initial \<open>+inf\<close>. One step returns \<open>None\<close> where the
  source leaves the loop by \<open>break\<close>.
\<close>

type_synonym slab_state = "real option \<times> real option \<times> nat \<times> real"

fun vnth :: "vec3 \<Rightarrow> nat \<Rightarrow> real" where
  "vnth (a, b, c) i = (if i = 0 then a else if i = 1 then b else c)"

fun vset :: "vec3 \<Rightarrow> nat \<Rightarrow> real \<Rightarrow> vec3" where
  "vset (a, b, c) i v = (if i = 0 then (v, b, c) else if i = 1 then (a, v, c) else (a, b, v))"

fun slab_axis :: "vec3 \<Rightarrow> vec3 \<Rightarrow> vec3 \<Rightarrow> vec3 \<Rightarrow> nat \<Rightarrow> slab_state \<Rightarrow> slab_state option" where
  "slab_axis ray_origin ray_direction min_bounds max_bounds i (t_min, t_max, axis, nsign) =
     (if \<bar>vnth ray_direction i\<bar> < 0.000001
      then (if vnth ray_origin i < vnth min_bounds i \<or> vnth ray_origin i > vnth max_bounds i
            then None
            else Some (t_min, t_max, axis, nsign))
      else (let ta = (vnth min_bounds i - vnth ray_origin i) / vnth ray_direction i;
                tb = (vnth max_bounds i - vnth ray_origin i) / vnth ray_direction i;
                t1 = (if ta > tb then tb else ta);
                t2 = (if ta > tb then ta else tb);
                sign = (if ta > tb then -1 else 1);
                raise_min = (case t_min of None \<Rightarrow> True | Some m \<Rightarrow> t1 > m);
                t_min' = (case t_min of None \<Rightarrow> t1 | Some m \<Rightarrow> (if t1 > m then t1 else m));
                axis' = (if raise_min then i else axis);
                nsign' = (if raise_min then - sign else nsign);
                t_max' = (case t_max of None \<Rightarrow> t2 | Some m \<Rightarrow> min m t2)
            in if t_min' > t_max' then None
               else Some (Some t_min', Some t_max', axis', nsign')))"

fun slab_loop :: "vec3 \<Rightarrow> vec3 \<Rightarrow> vec3 \<Rightarrow> vec3 \<Rightarrow> nat list \<Rightarrow> slab_state \<Rightarrow> slab_state option" where
  "slab_loop ray_origin ray_direction min_bounds max_bounds [] st = Some st"
| "slab_loop ray_origin ray_direction min_bounds max_bounds (i # is) st =
     (case slab_axis ray_origin ray_direction min_bounds max_bounds i st of
        None \<Rightarrow> None
      | Some st' \<Rightarrow> slab_loop ray_origin ray_direction min_bounds max_bounds is st')"

text \<open>
  Lines 211-253: the hit distance of the ray with a box and the normal of the face it
  enters by, when the loop ends without \<open>break\<close>. The distance \<open>None\<close> is \<open>+inf\<close>
  (every axis parallel to the ray), which passes no later test.
\<close>

definition ray_box_distance :: "vec3 \<Rightarrow> vec3 \<Rightarrow> vec3 \<Rightarrow> vec3 \<Rightarrow> (real option \<times> vec3) option" where
  "ray_box_distance ray_origin ray_direction box_pos box_half_size =
     (let min_bounds = vsub box_pos box_half_size;
          max_bounds = vadd box_pos box_half_size
      in case slab_loop ray_origin ray_direction min_bounds max_bounds [0, 1, 2] (None, None, 0, 1) of
           None \<Rightarrow> None
         | Some (t_min, t_max, axis, nsign) \<Rightarrow>
             Some (case t_min of None \<Rightarrow> t_max | Some m \<Rightarrow> (if m > 0 then Some m else t_max),
                   vset zeros axis nsign))"

text \<open>
  Lines 170-258, the body of the loop over the objects up to the last test: the pair
  of \<open>hit_distance\<close> and \<open>hit_normal\<close> when \<open>hit\<close> is set. The division of the
  normal by a zero radius is the numpy division.
\<close>

definition ray_object_hit :: "vec3 \<Rightarrow> vec3 \<Rightarrow> real \<Rightarrow> ray_object \<Rightarrow> error + (real \<times> vec3) option" where
  "ray_object_hit ray_origin ray_direction closest_distance obj =
     (if ro_type obj = ''sphere''
      then (case ro_radius obj of
              None \<Rightarrow> Inl KeyError
            | Some sphere_radius \<Rightarrow>
                (case ray_sphere_distance ray_origin ray_direction (ro_position obj) sphere_radius of
                   None \<Rightarrow> Inr None
                 | Some hit_distance \<Rightarrow>
                     if hit_distance < closest_distance
                     then (if sphere_radius = 0 then Inl NonFinite
                           else (let hit_point = vadd ray_origin (smul ray_direction hit_distance)
                                 in Inr (Some (hit_distance,
                                               sdiv (vsub hit_point (ro_position obj)) sphere_radius))))
                     else Inr None))
      else if ro_type obj = ''box''
      then (case ro_half_size obj of
              None \<Rightarrow> Inl KeyError
            | Some box_half_size \<Rightarrow>
                (case ray_box_distance ray_origin ray_direction (ro_position obj) box_half_size of
                   Some (Some hit_distance, normal) \<Rightarrow>
                     if hit_distance > 0 \<and> hit_distance < closest_distance
                     then Inr (Some (hit_distance, normal))
                     else Inr None
                 | _ \<Rightarrow> Inr None))
      else Inr None)"

text \<open>
  The loop of \<open>ray_cast\<close> (lines 166-270), with the state \<open>(closest_hit,
  closest_distance)\<close>; the hit flag of the result is \<open>closest_hit \<noteq> None\<close>.
\<close>

fun ray_cast_loop :: "vec3 \<Rightarrow> vec3 \<Rightarrow> ray_object list \<Rightarrow> hit_info option \<times> real \<Rightarrow> error + hit_info option" where
  "ray_cast_loop ray_origin ray_direction [] (closest_hit, closest_distance) = Inr closest_hit"
| "ray_cast_loop ray_origin ray_direction (obj # objs) (closest_hit, closest_distance) =
     (case ray_object_hit ray_origin ray_direction closest_distance obj of
        Inl e \<Rightarrow> Inl e
      | Inr None \<Rightarrow> ray_cast_loop ray_origin ray_direction objs (closest_hit, closest_distance)
      | Inr (Some (hit_distance, normal)) \<Rightarrow>
          if hit_distance < closest_distance
          then ray_cast_loop ray_origin ray_direction objs
                 (Some \<lparr>h_object = obj, h_distance = hit_distance,
                        h_point = vadd ray_origin (smul ray_direction hit_distance),
                        h_normal = normal\<rparr>,
                  hit_distance)
          else ray_cast_loop ray_origin ray_direction objs (closest_hit, closest_distance))"

definition ray_cast :: "vec3 \<Rightarrow> vec3 \<Rightarrow> real \<Rightarrow> ray_object list \<Rightarrow> error + hit_info option" where
  "ray_cast ray_origin ray_direction max_distance objects =
     ray_cast_loop ray_origin ray_direction objects (None, max_distance)"

text \<open>
  The intersection distance of one candidate, before the comparison with
  \<open>closest_distance\<close>: the near intersection of a sphere (lines 179-199), and for a
  box the distance of lines 211-253 when it is positive (the test \<open>hit_distance > 0\<close>
  of line 255). A candidate is well formed when it has the key its type asks for, with
  a non-zero radius for a sphere.
\<close>

definition intersection_distance :: "vec3 \<Rightarrow> vec3 \<Rightarrow> ray_object \<Rightarrow> real option" where
  "intersection_distance ray_origin ray_direction obj =
     (if ro_type obj = ''sphere''
      then (case ro_radius obj of
              None \<Rightarrow> None
            | Some sphere_radius \<Rightarrow>
                ray_sphere_distance ray_origin ray_direction (ro_position obj) sphere_radius)
      else if ro_type obj = ''box''
      then (case ro_half_size obj of
              None \<Rightarrow> None
            | Some box_half_size \<Rightarrow>
                (case ray_box_distance ray_origin ray_direction (ro_position obj) box_half_size of
                   Some (Some hit_distance, normal) \<Rightarrow>
                     if hit_distance > 0 then Some hit_distance else None
                 | _ \<Rightarrow> None))
      else None)"

definition well_formed :: "ray_object \<Rightarrow> bool" where
  "well_formed obj =
     ((ro_type obj = ''sphere'' \<longrightarrow> (\<exists>r. ro_radius obj = Some r \<and> r \<noteq> 0))
      \<and> (ro_type obj = ''box'' \<longrightarrow> ro_half_size obj \<noteq> None))"

definition ray_sphere :: "vec3 \<Rightarrow> real \<Rightarrow> ray_object" where
  "ray_sphere pos r =
     \<lparr>ro_type = ''sphere'', ro_position = pos, ro_radius = Some r, ro_half_size = None\<rparr>"

definition ray_box :: "vec3 \<Rightarrow> vec3 \<Rightarrow> ray_object" where
  "ray_box pos h =
     \<lparr>ro_type = ''box'', ro_position = pos, ro_radius = None, ro_half_size = Some h\<rparr>"

section \<open>Collision response: \<open>CollisionResolver\<close>\<close>

text \<open>
  \<open>resolve_sphere_collision\<close> (collision.py, lines 278-325). The masses are Python
  floats, as the signature says, so \<open>1 / mass\<close> raises on a zero mass; \<open>j\<close> is a numpy
  float, so the division of \<open>j\<close> by a zero sum of inverse masses is the numpy division.
\<close>

definition resolve_sphere_collision ::
  "vec3 \<Rightarrow> vec3 \<Rightarrow> real \<Rightarrow> real \<Rightarrow> vec3 \<Rightarrow> vec3 \<Rightarrow> real \<Rightarrow> real \<Rightarrow> real \<Rightarrow> error + (vec3 \<times> vec3)" where
  "resolve_sphere_collision pos1 velocity1 mass1 radius1 pos2 velocity2 mass2 radius2 restitution =
     (let distance = linalg_norm (vsub pos1 pos2)
      in if distance < 0.0001 then Inr (velocity1, velocity2)
         else (let normal = sdiv (vsub pos1 pos2) distance;
                   rel_velocity = vsub velocity1 velocity2;
                   vel_along_normal = dot rel_velocity normal
               in if vel_along_normal > 0 then Inr (velocity1, velocity2)
                  else if mass1 = 0 \<or> mass2 = 0 then Inl ZeroDivisionError
                  else if 1 / mass1 + 1 / mass2 = 0 then Inl NonFinite
                  else (let j = (- (1 + restitution) * vel_along_normal) / (1 / mass1 + 1 / mass2)
                        in Inr (vadd velocity1 (smul normal (j / mass1)),
                                vsub velocity2 (smul normal (j / mass2))))))"

text \<open>\<open>resolve_penetration\<close> (collision.py, lines 327-366).\<close>

definition resolve_penetration :: "vec3 \<Rightarrow> real \<Rightarrow> vec3 \<Rightarrow> real \<Rightarrow> vec3 \<times> vec3" where
  "resolve_penetration pos1 radius1 pos2 radius2 =
     (let far = \<not> linalg_norm (vsub pos1 pos2) < 0.0001;
          distance = (if far then linalg_norm (vsub pos1 pos2) else 1);
          direction = (if far then sdiv (vsub pos1 pos2) distance else (1, 0, 0));
          penetration = radius1 + radius2 - distance
      in if penetration \<le> 0 then (pos1, pos2)
         else (let displacement = sdiv (smul direction penetration) 2
               in (vadd pos1 displacement, vsub pos2 displacement)))"

section \<open>Bodies and the \<open>CollisionManager\<close>\<close>

text \<open>
  A body is a Python dict. The keys \<open>position\<close> and \<open>velocity\<close> are read by every
  operation and are fields of the record; every other key may be absent and is an
  option, so that \<open>obj['k']\<close> on an absent key is the \<open>KeyError\<close> of the source and
  \<open>obj.get('k', d)\<close> is the default \<open>d\<close>.
\<close>

record body =
  b_shape :: "string option"
  b_position :: vec3
  b_velocity :: vec3
  b_mass :: "real option"
  b_radius :: "real option"
  b_half_size :: "vec3 option"
  b_is_grounded :: "bool option"
  b_has_physics :: "bool option"
  b_has_controller :: "bool option"
  b_input_direction :: "vec3 option"
  b_forward_vector :: "vec3 option"
  b_is_sprinting :: "bool option"
  b_is_crouching :: "bool option"

definition key :: "'a option \<Rightarrow> ('a \<Rightarrow> error + 'b) \<Rightarrow> error + 'b" where
  "key v f = (case v of None \<Rightarrow> Inl KeyError | Some x \<Rightarrow> f x)"

definition get :: "'a option \<Rightarrow> 'a \<Rightarrow> 'a" where
  "get v d = (case v of None \<Rightarrow> d | Some x \<Rightarrow> x)"

definition bind :: "error + 'a \<Rightarrow> ('a \<Rightarrow> error + 'b) \<Rightarrow> error + 'b" where
  "bind m f = (case m of Inl e \<Rightarrow> Inl e | Inr x \<Rightarrow> f x)"

text \<open>
  \<open>collision_layers\<close> is a dict from layer name to a set of object ids, here the list
  of its items; the collision matrix is a dict from layer name to a list of layer names.
\<close>

type_synonym layers = "(string \<times> nat set) list"
type_synonym matrix = "string \<rightharpoonup> string list"

definition add_to_layer :: "layers \<Rightarrow> nat \<Rightarrow> string \<Rightarrow> layers" where
  "add_to_layer collision_layers object_id layer_name =
     (if layer_name \<in> fst ` set collision_layers
      then map (\<lambda>(n, objs). if n = layer_name then (n, insert object_id objs) else (n, objs))
             collision_layers
      else collision_layers @ [(layer_name, {object_id})])"

definition remove_from_layer :: "layers \<Rightarrow> nat \<Rightarrow> string \<Rightarrow> layers" where
  "remove_from_layer collision_layers object_id layer_name =
     map (\<lambda>(n, objs). if n = layer_name then (n, objs - {object_id}) else (n, objs))
       collision_layers"

text \<open>\<open>should_check_collision\<close> (collision.py, lines 404-433).\<close>

definition should_check_collision :: "layers \<Rightarrow> nat \<Rightarrow> nat \<Rightarrow> matrix \<Rightarrow> bool" where
  "should_check_collision collision_layers obj1_id obj2_id collision_matrix =
     (let obj1_layers = map fst (filter (\<lambda>(layer_name, objects). obj1_id \<in> objects) collision_layers);
          obj2_layers = map fst (filter (\<lambda>(layer_name, objects). obj2_id \<in> objects) collision_layers)
      in list_ex (\<lambda>layer1.
            case collision_matrix layer1 of
              None \<Rightarrow> False
            | Some allowed \<Rightarrow> list_ex (\<lambda>layer2. layer2 \<in> set allowed) obj2_layers)
          obj1_layers)"

text \<open>
  Lines 471-496 of \<open>process_collisions\<close>: the detector for the pair of shapes. The
  conditions of the source are tried in their order, and \<open>and\<close> reads the shape of the
  second body only when the first is a sphere or a box.
\<close>

definition detect_collision :: "body \<Rightarrow> body \<Rightarrow> error + (bool \<times> vec3 option)" where
  "detect_collision obj1 obj2 =
     key (b_shape obj1) (\<lambda>shape1.
       if shape1 = ''sphere'' then
         key (b_shape obj2) (\<lambda>shape2.
           if shape2 = ''sphere'' then
             key (b_radius obj1) (\<lambda>r1. key (b_radius obj2) (\<lambda>r2.
               Inr (check_sphere_sphere (b_position obj1) r1 (b_position obj2) r2)))
           else if shape2 = ''box'' then
             key (b_radius obj1) (\<lambda>r1. key (b_half_size obj2) (\<lambda>h2.
               (case check_sphere_box (b_position obj1) r1 (b_position obj2) h2 of
                  (True, Some n) \<Rightarrow> Inr (True, Some (vneg n))
                | res \<Rightarrow> Inr res)))
           else Inr (False, None))
       else if shape1 = ''box'' then
         key (b_shape obj2) (\<lambda>shape2.
           if shape2 = ''box'' then
             key (b_half_size obj1) (\<lambda>h1. key (b_half_size obj2) (\<lambda>h2.
               Inr (check_box_box (b_position obj1) h1 (b_position obj2) h2)))
           else if shape2 = ''sphere'' then
             key (b_radius obj2) (\<lambda>r2. key (b_half_size obj1) (\<lambda>h1.
               Inr (check_sphere_box (b_position obj2) r2 (b_position obj1) h1)))
           else Inr (False, None))
       else Inr (False, None))"

text \<open>
  The snapshot \<open>game_objects\<close> is a dict from object id to a body, and each body is
  itself a mutable dict: the snapshot holds references. The store maps a reference to
  the body it points to, and the snapshot is the list of its items \<open>(id, reference)\<close>.
  \<open>game_objects.copy()\<close> is a shallow copy: a new dict with the same references, so
  \<open>updated_objects[i]\<close> and \<open>game_objects[i]\<close> are one body in the store, and the
  dict returned holds the references the caller passed in.
\<close>

type_synonym ref = nat
type_synonym store = "ref \<Rightarrow> body"
type_synonym snapshot = "(nat \<times> ref) list"

definition lookup :: "snapshot \<Rightarrow> nat \<Rightarrow> (ref \<Rightarrow> error + 'b) \<Rightarrow> error + 'b" where
  "lookup game_objects i f = key (map_of game_objects i) f"

definition set_velocity :: "store \<Rightarrow> ref \<Rightarrow> vec3 \<Rightarrow> store" where
  "set_velocity s r v = s(r := (s r)\<lparr>b_velocity := v\<rparr>)"

definition set_position :: "store \<Rightarrow> ref \<Rightarrow> vec3 \<Rightarrow> store" where
  "set_position s r p = s(r := (s r)\<lparr>b_position := p\<rparr>)"

text \<open>
  Lines 498-544: the resolution of a detected pair, on the store. Every read of
  \<open>obj1\<close> and \<open>obj2\<close> is a read of the store as it is at that statement.
\<close>

definition resolve_pair :: "ref \<Rightarrow> ref \<Rightarrow> real \<Rightarrow> vec3 \<Rightarrow> store \<Rightarrow> error + store" where
  "resolve_pair r1 r2 restitution collision_normal s =
     (if b_shape (s r1) = Some ''sphere'' \<and> b_shape (s r2) = Some ''sphere'' then
        key (b_mass (s r1)) (\<lambda>m1. key (b_radius (s r1)) (\<lambda>rad1.
        key (b_mass (s r2)) (\<lambda>m2. key (b_radius (s r2)) (\<lambda>rad2.
          bind (resolve_sphere_collision (b_position (s r1)) (b_velocity (s r1)) m1 rad1
                  (b_position (s r2)) (b_velocity (s r2)) m2 rad2 restitution)
            (\<lambda>(new_vel1, new_vel2).
               let s1 = set_velocity s r1 new_vel1;
                   s2 = set_velocity s1 r2 new_vel2;
                   (new_pos1, new_pos2) =
                     resolve_penetration (b_position (s2 r1)) rad1 (b_position (s2 r2)) rad2;
                   s3 = set_position s2 r1 new_pos1;
                   s4 = set_position s3 r2 new_pos2
               in Inr s4)))))
      else
        (let rel_velocity = vsub (b_velocity (s r1)) (b_velocity (s r2));
             vel_along_normal = dot rel_velocity collision_normal
         in if vel_along_normal > 0 then Inr s
            else
              key (b_mass (s r1)) (\<lambda>m1. if m1 = 0 then Inl ZeroDivisionError else
              key (b_mass (s r2)) (\<lambda>m2. if m2 = 0 then Inl ZeroDivisionError else
                if 1 / m1 + 1 / m2 = 0 then Inl NonFinite
                else
                  (let j = (- (1 + restitution) * vel_along_normal) / (1 / m1 + 1 / m2);
                       impulse = smul collision_normal j;
                       s1 = set_velocity s r1 (vadd (b_velocity (s r1)) (sdiv impulse m1));
                       s2 = set_velocity s1 r2 (vsub (b_velocity (s1 r2)) (sdiv impulse m2));
                       penetration = 0.1;
                       correction = sdiv (smul collision_normal (penetration * 0.8)) (1 / m1 + 1 / m2);
                       s3 = set_position s2 r1 (vadd (b_position (s2 r1)) (sdiv correction m1));
                       s4 = set_position s3 r2 (vsub (b_position (s3 r2)) (sdiv correction m2))
                   in Inr s4)))))"

text \<open>Lines 461-544: the body of the double loop, for one pair of object ids.\<close>

definition process_pair :: "layers \<Rightarrow> snapshot \<Rightarrow> matrix \<Rightarrow> real \<Rightarrow> store \<Rightarrow> nat \<times> nat \<Rightarrow> error + store" where
  "process_pair collision_layers game_objects collision_matrix restitution s ids =
     (case ids of (obj1_id, obj2_id) \<Rightarrow>
        if \<not> should_check_collision collision_layers obj1_id obj2_id collision_matrix then Inr s
        else
          lookup game_objects obj1_id (\<lambda>r1. lookup game_objects obj2_id (\<lambda>r2.
            bind (detect_collision (s r1) (s r2))
              (\<lambda>(collision_detected, collision_normal).
                 case collision_normal of
                   Some n \<Rightarrow> (if collision_detected then resolve_pair r1 r2 restitution n s else Inr s)
                 | None \<Rightarrow> Inr s))))"

text \<open>
  The pairs \<open>(object_ids[i], object_ids[j])\<close> with \<open>i < j\<close>, in the order of the two
  \<open>for\<close> loops.
\<close>

fun pairs :: "'a list \<Rightarrow> ('a \<times> 'a) list" where
  "pairs [] = []"
| "pairs (x # xs) = map (Pair x) xs @ pairs xs"

fun process_loop :: "layers \<Rightarrow> snapshot \<Rightarrow> matrix \<Rightarrow> real \<Rightarrow> (nat \<times> nat) list \<Rightarrow> store \<Rightarrow> error + store" where
  "process_loop collision_layers game_objects collision_matrix restitution [] s = Inr s"
| "process_loop collision_layers game_objects collision_matrix restitution (p # ps) s =
     (case process_pair collision_layers game_objects collision_matrix restitution s p of
        Inl e \<Rightarrow> Inl e
      | Inr s' \<Rightarrow> process_loop collision_layers game_objects collision_matrix restitution ps s')"

text \<open>
  \<open>process_collisions\<close> (collision.py, lines 435-546). The result is the store after
  the call; the dict returned is \<open>game_objects\<close> again, item by item.
\<close>

definition process_collisions :: "layers \<Rightarrow> snapshot \<Rightarrow> matrix \<Rightarrow> real \<Rightarrow> store \<Rightarrow> error + store" where
  "process_collisions collision_layers game_objects collision_matrix restitution s =
     process_loop collision_layers game_objects collision_matrix restitution
       (pairs (map fst game_objects)) s"

text \<open>
  What the caller reads, through the references of a snapshot, from a store: the
  position and the velocity of every body, under its id.
\<close>

definition read_back :: "snapshot \<Rightarrow> error + store \<Rightarrow> error + (nat \<times> vec3 \<times> vec3) list" where
  "read_back game_objects result =
     (case result of
        Inl e \<Rightarrow> Inl e
      | Inr s \<Rightarrow> Inr (map (\<lambda>(i, r). (i, b_position (s r), b_velocity (s r))) game_objects))"

subsection \<open>The pass as the specification words it\<close>

text \<open>
  The specification has the bodies updated in a copy of the snapshot: every pair is
  detected and resolved from the bodies of the input snapshot, and the corrections go
  to a working copy, which is returned. The three definitions below follow these
  words; they differ from \<open>resolve_pair\<close>, \<open>process_pair\<close> and \<open>process_loop\<close> only in
  reading from the snapshot \<open>snap\<close> and writing to the copy \<open>w\<close>.
\<close>

definition spec_resolve_pair :: "ref \<Rightarrow> ref \<Rightarrow> real \<Rightarrow> vec3 \<Rightarrow> store \<Rightarrow> store \<Rightarrow> error + store" where
  "spec_resolve_pair r1 r2 restitution collision_normal snap w =
     (if b_shape (snap r1) = Some ''sphere'' \<and> b_shape (snap r2) = Some ''sphere'' then
        key (b_mass (snap r1)) (\<lambda>m1. key (b_radius (snap r1)) (\<lambda>rad1.
        key (b_mass (snap r2)) (\<lambda>m2. key (b_radius (snap r2)) (\<lambda>rad2.
          bind (resolve_sphere_collision (b_position (snap r1)) (b_velocity (snap r1)) m1 rad1
                  (b_position (snap r2)) (b_velocity (snap r2)) m2 rad2 restitution)
            (\<lambda>(new_vel1, new_vel2).
               let (new_pos1, new_pos2) =
                     resolve_penetration (b_position (snap r1)) rad1 (b_position (snap r2)) rad2
               in Inr (set_position (set_position
                         (set_velocity (set_velocity w r1 new_vel1) r2 new_vel2)
                         r1 new_pos1) r2 new_pos2))))))
      else
        (let rel_velocity = vsub (b_velocity (snap r1)) (b_velocity (snap r2));
             vel_along_normal = dot rel_velocity collision_normal
         in if vel_along_normal > 0 then Inr w
            else
              key (b_mass (snap r1)) (\<lambda>m1. if m1 = 0 then Inl ZeroDivisionError else
              key (b_mass (snap r2)) (\<lambda>m2. if m2 = 0 then Inl ZeroDivisionError else
                if 1 / m1 + 1 / m2 = 0 then Inl NonFinite
                else
                  (let j = (- (1 + restitution) * vel_along_normal) / (1 / m1 + 1 / m2);
                       impulse = smul collision_normal j;
                       correction = sdiv (smul collision_normal (0.1 * 0.8)) (1 / m1 + 1 / m2)
                   in Inr (set_position (set_position
                             (set_velocity
                                (set_velocity w r1 (vadd (b_velocity (snap r1)) (sdiv impulse m1)))
                                r2 (vsub (b_velocity (snap r2)) (sdiv impulse m2)))
                             r1 (vadd (b_position (snap r1)) (sdiv correction m1)))
                             r2 (vsub (b_position (snap r2)) (sdiv correction m2))))))))"

definition spec_process_pair ::
  "layers \<Rightarrow> snapshot \<Rightarrow> matrix \<Rightarrow> real \<Rightarrow> store \<Rightarrow> store \<Rightarrow> nat \<times> nat \<Rightarrow> error + store" where
  "spec_process_pair collision_layers game_objects collision_matrix restitution snap w ids =
     (case ids of (obj1_id, obj2_id) \<Rightarrow>
        if \<not> should_check_collision collision_layers obj1_id obj2_id collision_matrix then Inr w
        else
          lookup game_objects obj1_id (\<lambda>r1. lookup game_objects obj2_id (\<lambda>r2.
            bind (detect_collision (snap r1) (snap r2))
              (\<lambda>(collision_detected, collision_normal).
                 case collision_normal of
                   Some n \<Rightarrow> (if collision_detected
                              then spec_resolve_pair r1 r2 restitution n snap w else Inr w)
                 | None \<Rightarrow> Inr w))))"

fun spec_process_loop ::
  "layers \<Rightarrow> snapshot \<Rightarrow> matrix \<Rightarrow> real \<Rightarrow> store \<Rightarrow> (nat \<times> nat) list \<Rightarrow> store \<Rightarrow> error + store" where
  "spec_process_loop collision_layers game_objects collision_matrix restitution snap [] w = Inr w"
| "spec_process_loop collision_layers game_objects collision_matrix restitution snap (p # ps) w =
     (case spec_process_pair collision_layers game_objects collision_matrix restitution snap w p of
        Inl e \<Rightarrow> Inl e
      | Inr w' \<Rightarrow>
          spec_process_loop collision_layers game_objects collision_matrix restitution snap ps w')"

definition spec_process_collisions :: "layers \<Rightarrow> snapshot \<Rightarrow> matrix \<Rightarrow> real \<Rightarrow> store \<Rightarrow> error + store" where
  "spec_process_collisions collision_layers game_objects collision_matrix restitution s =
     spec_process_loop collision_layers game_objects collision_matrix restitution s
       (pairs (map fst game_objects)) s"

section \<open>Motion: \<open>Motion\<close>, \<open>OmniMovement\<close>, \<open>MotionPhysicsSystem\<close>\<close>

record motion =
  m_gravity :: vec3
  m_air_resistance :: real
  m_ground_friction :: real

definition motion_init :: motion where
  "motion_init = \<lparr>m_gravity = (0, -9.81, 0), m_air_resistance = 0.01, m_ground_friction = 0.1\<rparr>"

text \<open>
  \<open>apply_force\<close> and \<open>apply_impulse\<close> (motion.py, lines 37-79) divide an array by the
  mass: the numpy division.
\<close>

definition apply_force :: "real \<Rightarrow> vec3 \<Rightarrow> vec3 \<Rightarrow> real \<Rightarrow> error + vec3" where
  "apply_force mass current_velocity force delta_time =
     (if mass = 0 then Inl NonFinite
      else (let acceleration = sdiv force mass
            in Inr (vadd current_velocity (smul acceleration delta_time))))"

definition apply_impulse :: "real \<Rightarrow> vec3 \<Rightarrow> vec3 \<Rightarrow> error + vec3" where
  "apply_impulse mass current_velocity impulse =
     (if mass = 0 then Inl NonFinite
      else (let velocity_change = sdiv impulse mass
            in Inr (vadd current_velocity velocity_change)))"

definition apply_gravity :: "motion \<Rightarrow> vec3 \<Rightarrow> bool \<Rightarrow> real \<Rightarrow> vec3" where
  "apply_gravity mo velocity is_grounded delta_time =
     (if \<not> is_grounded then vadd velocity (smul (m_gravity mo) delta_time) else velocity)"

definition apply_air_resistance :: "motion \<Rightarrow> vec3 \<Rightarrow> real \<Rightarrow> vec3" where
  "apply_air_resistance mo velocity delta_time =
     (let speed = linalg_norm velocity
      in if speed > 0.001
         then (let deceleration = smul velocity (- m_air_resistance mo);
                   new_velocity = vadd velocity (smul deceleration delta_time);
                   new_speed = linalg_norm new_velocity
               in if new_speed < 0.001 \<or> dot new_velocity velocity < 0 then zeros
                  else new_velocity)
         else zeros)"

definition apply_ground_friction :: "motion \<Rightarrow> vec3 \<Rightarrow> bool \<Rightarrow> real \<Rightarrow> vec3" where
  "apply_ground_friction mo velocity is_grounded delta_time =
     (if \<not> is_grounded then velocity
      else (let horizontal_velocity = (vx velocity, 0, vz velocity);
                speed = linalg_norm horizontal_velocity
            in if speed > 0.001
               then (let friction_direction = sdiv (vneg horizontal_velocity) speed;
                         deceleration = smul (smul friction_direction (m_ground_friction mo)) 9.81;
                         new_horizontal0 = vadd horizontal_velocity (smul deceleration delta_time);
                         new_speed = linalg_norm new_horizontal0;
                         new_horizontal =
                           (if new_speed < 0.001 \<or> dot new_horizontal0 horizontal_velocity < 0
                            then zeros else new_horizontal0)
                     in (vx new_horizontal, vy velocity, vz new_horizontal))
               else (0, vy velocity, 0)))"

definition update_position :: "vec3 \<Rightarrow> vec3 \<Rightarrow> real \<Rightarrow> vec3" where
  "update_position position velocity delta_time = vadd position (smul velocity delta_time)"

text \<open>
  \<open>process_object_motion\<close> (motion.py, lines 189-230) works on a copy of the dict; the
  arrays are never mutated in place, so a body is a value here.
\<close>

definition process_object_motion :: "motion \<Rightarrow> body \<Rightarrow> real \<Rightarrow> body" where
  "process_object_motion mo obj delta_time =
     (let u1 = obj\<lparr>b_velocity :=
                 apply_gravity mo (b_velocity obj) (get (b_is_grounded obj) False) delta_time\<rparr>;
          u2 = u1\<lparr>b_velocity := apply_air_resistance mo (b_velocity u1) delta_time\<rparr>;
          u3 = u2\<lparr>b_velocity :=
                 apply_ground_friction mo (b_velocity u2) (get (b_is_grounded u2) False) delta_time\<rparr>;
          u4 = u3\<lparr>b_position := update_position (b_position u3) (b_velocity u3) delta_time\<rparr>
      in u4)"

record omni_movement =
  om_max_speed :: real
  om_acceleration :: real
  om_deceleration :: real
  om_air_control :: real
  om_strafe_speed_multiplier :: real
  om_backward_speed_multiplier :: real
  om_sprint_multiplier :: real
  om_crouch_multiplier :: real

definition omni_movement_init :: omni_movement where
  "omni_movement_init =
     \<lparr>om_max_speed = 5, om_acceleration = 20, om_deceleration = 25, om_air_control = 0.3,
      om_strafe_speed_multiplier = 0.8, om_backward_speed_multiplier = 0.7,
      om_sprint_multiplier = 1.5, om_crouch_multiplier = 0.5\<rparr>"

definition calculate_move_direction :: "vec3 \<Rightarrow> vec3 \<Rightarrow> vec3 \<Rightarrow> vec3" where
  "calculate_move_direction forward_vec right_vec input_direction =
     (let forward_component = smul forward_vec (vz input_direction);
          right_component = smul right_vec (vx input_direction);
          move_direction = vadd forward_component right_component;
          magnitude = linalg_norm move_direction
      in if magnitude > 0.001 then sdiv move_direction magnitude else move_direction)"

text \<open>
  \<open>apply_movement_input\<close> (motion.py, lines 319-436). The division by \<open>delta_time\<close>
  and the rescaling by \<open>accel_magnitude\<close> are numpy divisions.
\<close>

definition apply_movement_input ::
  "omni_movement \<Rightarrow> body \<Rightarrow> vec3 \<Rightarrow> real \<Rightarrow> bool \<Rightarrow> bool \<Rightarrow> error + body" where
  "apply_movement_input om obj input_direction delta_time is_sprinting is_crouching =
     (let forward_vec = get (b_forward_vector obj) (0, 0, 1);
          right_vec0 = cross (0, 1, 0) forward_vec;
          right_vec = sdiv right_vec0 (max (linalg_norm right_vec0) 0.001)
      in if linalg_norm input_direction > 0.001
         then
           (let move_direction = calculate_move_direction forward_vec right_vec input_direction;
                forward_alignment = dot move_direction forward_vec;
                direction_multiplier0 =
                  (if forward_alignment < -0.3 then om_backward_speed_multiplier om
                   else if \<bar>forward_alignment\<bar> < 0.7 then om_strafe_speed_multiplier om
                   else 1);
                direction_multiplier =
                  (if is_sprinting then direction_multiplier0 * om_sprint_multiplier om
                   else if is_crouching then direction_multiplier0 * om_crouch_multiplier om
                   else direction_multiplier0);
                current_max_speed = om_max_speed om * direction_multiplier;
                desired_velocity = smul move_direction current_max_speed;
                acceleration_modifier =
                  (if \<not> get (b_is_grounded obj) True then om_air_control om else 1);
                current_velocity_horizontal = (vx (b_velocity obj), 0, vz (b_velocity obj));
                desired_velocity_horizontal = (vx desired_velocity, 0, vz desired_velocity)
            in if delta_time = 0 then Inl NonFinite
               else
                 (let acceleration_vector0 =
                        sdiv (vsub desired_velocity_horizontal current_velocity_horizontal) delta_time;
                      accel_magnitude = linalg_norm acceleration_vector0;
                      limit = om_acceleration om * acceleration_modifier
                  in if accel_magnitude > limit \<and> accel_magnitude = 0 then Inl NonFinite
                     else
                       (let acceleration_vector =
                              (if accel_magnitude > limit
                               then smul acceleration_vector0 (limit / accel_magnitude)
                               else acceleration_vector0);
                            force = smul acceleration_vector (get (b_mass obj) 1)
                        in bind (apply_force (get (b_mass obj) 1) (b_velocity obj) force delta_time)
                             (\<lambda>new_velocity.
                                Inr (obj\<lparr>b_velocity := vset new_velocity 1 (vy (b_velocity obj))\<rparr>)))))
         else
           (let current_velocity_horizontal = (vx (b_velocity obj), 0, vz (b_velocity obj));
                speed = linalg_norm current_velocity_horizontal
            in if speed > 0.001
               then
                 (let deceleration_direction = sdiv (vneg current_velocity_horizontal) speed;
                      deceleration =
                        (if \<not> get (b_is_grounded obj) True
                         then om_deceleration om * om_air_control om else om_deceleration om);
                      force = smul (smul deceleration_direction deceleration) (get (b_mass obj) 1)
                  in bind (apply_force (get (b_mass obj) 1) (b_velocity obj) force delta_time)
                       (\<lambda>new_velocity.
                          Inr (obj\<lparr>b_velocity := vset new_velocity 1 (vy (b_velocity obj))\<rparr>)))
               else Inr obj))"

text \<open>\<open>process_jump\<close> and \<open>process_dash\<close> (motion.py, lines 438-500).\<close>

definition process_jump :: "body \<Rightarrow> real \<Rightarrow> error + body" where
  "process_jump obj jump_force =
     (if get (b_is_grounded obj) False
      then (let jump_impulse = (0, jump_force, 0)
            in bind (apply_impulse (get (b_mass obj) 1) (b_velocity obj) jump_impulse)
                 (\<lambda>v. Inr (obj\<lparr>b_velocity := v, b_is_grounded := Some False\<rparr>)))
      else Inr obj)"

definition process_dash :: "body \<Rightarrow> vec3 \<Rightarrow> real \<Rightarrow> error + body" where
  "process_dash obj dash_direction dash_force =
     (let magnitude = linalg_norm dash_direction
      in if magnitude > 0.001
         then (let normalized_direction = sdiv dash_direction magnitude;
                   dash_impulse = smul normalized_direction dash_force
               in bind (apply_impulse (get (b_mass obj) 1) (b_velocity obj) dash_impulse)
                    (\<lambda>v. Inr (obj\<lparr>b_velocity := v\<rparr>)))
         else Inr obj)"

text \<open>
  \<open>MotionPhysicsSystem.update\<close> (motion.py, lines 514-552): \<open>update_object\<close> is the
  body of the loop, \<open>update\<close> the loop over the items of the dict.
\<close>

definition update_object :: "motion \<Rightarrow> omni_movement \<Rightarrow> body \<Rightarrow> real \<Rightarrow> error + body" where
  "update_object mo om obj delta_time =
     (if \<not> get (b_has_physics obj) True then Inr obj
      else (let updated_obj = process_object_motion mo obj delta_time
            in case b_input_direction obj of
                 Some input \<Rightarrow>
                   (if get (b_has_controller obj) False
                    then apply_movement_input om updated_obj input delta_time
                           (get (b_is_sprinting obj) False) (get (b_is_crouching obj) False)
                    else Inr updated_obj)
               | None \<Rightarrow> Inr updated_obj))"

fun update :: "motion \<Rightarrow> omni_movement \<Rightarrow> (nat \<times> body) list \<Rightarrow> real \<Rightarrow> error + (nat \<times> body) list" where
  "update mo om [] delta_time = Inr []"
| "update mo om ((obj_id, obj) # rest) delta_time =
     (case update_object mo om obj delta_time of
        Inl e \<Rightarrow> Inl e
      | Inr updated_obj \<Rightarrow>
          (case update mo om rest delta_time of
             Inl e \<Rightarrow> Inl e
           | Inr updated_objects \<Rightarrow> Inr ((obj_id, updated_obj) # updated_objects)))"

section \<open>Gravity: \<open>GravitySystem\<close> and \<open>GravityZone\<close>\<close>

record gravity_system =
  gs_gravity_constant :: real
  gs_gravity_direction :: vec3
  gs_gravity_vector :: vec3

text \<open>
  The constructor (gravity.py, lines 11-22) and \<open>set_gravity_direction\<close> normalise the
  direction given, with no guard: the numpy division.
\<close>

definition gravity_system_init :: "real \<Rightarrow> vec3 \<Rightarrow> error + gravity_system" where
  "gravity_system_init gravity_constant gravity_direction =
     (if linalg_norm gravity_direction = 0 then Inl NonFinite
      else (let d = sdiv gravity_direction (linalg_norm gravity_direction)
            in Inr \<lparr>gs_gravity_constant = gravity_constant, gs_gravity_direction = d,
                    gs_gravity_vector = smul d gravity_constant\<rparr>))"

definition set_gravity_strength :: "gravity_system \<Rightarrow> real \<Rightarrow> gravity_system" where
  "set_gravity_strength gs gravity_constant =
     gs\<lparr>gs_gravity_constant := gravity_constant,
        gs_gravity_vector := smul (gs_gravity_direction gs) gravity_constant\<rparr>"

definition set_gravity_direction :: "gravity_system \<Rightarrow> vec3 \<Rightarrow> error + gravity_system" where
  "set_gravity_direction gs gravity_direction =
     (if linalg_norm gravity_direction = 0 then Inl NonFinite
      else (let d = sdiv gravity_direction (linalg_norm gravity_direction)
            in Inr (gs\<lparr>gs_gravity_direction := d,
                       gs_gravity_vector := smul d (gs_gravity_constant gs)\<rparr>)))"

record gravity_zone =
  gz_position :: vec3
  gz_radius :: real
  gz_gravity_modifier :: real
  gz_gravity_direction :: "vec3 option"
  gz_is_enabled :: bool

definition is_in_zone :: "gravity_zone \<Rightarrow> vec3 \<Rightarrow> bool" where
  "is_in_zone zone object_position =
     (linalg_norm (vsub object_position (gz_position zone)) \<le> gz_radius zone)"

definition get_influence_factor :: "gravity_zone \<Rightarrow> vec3 \<Rightarrow> error + real" where
  "get_influence_factor zone object_position =
     (if \<not> is_in_zone zone object_position then Inr 0
      else (let distance = linalg_norm (vsub object_position (gz_position zone))
            in if gz_radius zone = 0 then Inl NonFinite
               else Inr (1 - distance / gz_radius zone)))"

text \<open>
  \<open>modify_gravity\<close> (gravity.py, lines 186-218). Both normalisations divide an array
  by its norm with no guard.
\<close>

definition modify_gravity :: "gravity_zone \<Rightarrow> gravity_system \<Rightarrow> vec3 \<Rightarrow> real \<Rightarrow> error + (real \<times> vec3)" where
  "modify_gravity zone gs object_position influence_threshold =
     (if \<not> gz_is_enabled zone then Inr (gs_gravity_constant gs, gs_gravity_direction gs)
      else
        bind (get_influence_factor zone object_position)
          (\<lambda>influence.
             if influence \<le> influence_threshold
             then Inr (gs_gravity_constant gs, gs_gravity_direction gs)
             else
               (let modified_constant = gs_gravity_constant gs * gz_gravity_modifier zone
                in case gz_gravity_direction zone of
                     Some zone_direction \<Rightarrow>
                       if linalg_norm zone_direction = 0 then Inl NonFinite
                       else
                         (let normalized_direction = sdiv zone_direction (linalg_norm zone_direction);
                              blended_direction =
                                vadd (smul (gs_gravity_direction gs) (1 - influence))
                                     (smul normalized_direction influence)
                          in if linalg_norm blended_direction = 0 then Inl NonFinite
                             else Inr (modified_constant,
                                       sdiv blended_direction (linalg_norm blended_direction)))
                   | None \<Rightarrow> Inr (modified_constant, gs_gravity_direction gs))))"

section \<open>Bodies for concrete inputs\<close>

text \<open>
  A body with the two kinematic keys only, a sphere and a box: the dicts the docstring
  of \<open>process_collisions\<close> describes.
\<close>

definition plain_body :: "vec3 \<Rightarrow> vec3 \<Rightarrow> body" where
  "plain_body pos vel =
     \<lparr>b_shape = None, b_position = pos, b_velocity = vel, b_mass = None, b_radius = None,
      b_half_size = None, b_is_grounded = None, b_has_physics = None, b_has_controller = None,
      b_input_direction = None, b_forward_vector = None, b_is_sprinting = None,
      b_is_crouching = None\<rparr>"

definition sphere_body :: "vec3 \<Rightarrow> vec3 \<Rightarrow> real \<Rightarrow> real \<Rightarrow> body" where
  "sphere_body pos vel r m =
     (plain_body pos vel)\<lparr>b_shape := Some ''sphere'', b_mass := Some m, b_radius := Some r\<rparr>"

definition box_body :: "vec3 \<Rightarrow> vec3 \<Rightarrow> vec3 \<Rightarrow> real \<Rightarrow> body" where
  "box_body pos vel h m =
     (plain_body pos vel)\<lparr>b_shape := Some ''box'', b_mass := Some m, b_half_size := Some h\<rparr>"

text \<open>
  Three unit spheres of mass 1 on the X axis, at 0, 1 and 3, behind the references 0,
  1 and 2; the first moves toward the second with velocity \<open>(1, 0, 0)\<close>.
\<close>

definition three_spheres :: store where
  "three_spheres =
     (\<lambda>_. plain_body zeros zeros)
       (0 := sphere_body (0, 0, 0) (1, 0, 0) 1 1,
        1 := sphere_body (1, 0, 0) (0, 0, 0) 1 1,
        2 := sphere_body (3, 0, 0) (0, 0, 0) 1 1)"

text \<open>
  A sphere of radius 1.5 and mass 1 centred two units above a box of half size 1 and
  mass 1 at rest at the origin, the sphere with a given velocity; once with the sphere
  behind the reference 0 and the box behind 1, once the other way round.
\<close>

definition sphere_then_box :: "vec3 \<Rightarrow> store" where
  "sphere_then_box vel =
     (\<lambda>_. plain_body zeros zeros)
       (0 := sphere_body (0, 2, 0) vel (3 / 2) 1,
        1 := box_body (0, 0, 0) (0, 0, 0) (1, 1, 1) 1)"

definition box_then_sphere :: "vec3 \<Rightarrow> store" where
  "box_then_sphere vel =
     (\<lambda>_. plain_body zeros zeros)
       (0 := box_body (0, 0, 0) (0, 0, 0) (1, 1, 1) 1,
        1 := sphere_body (0, 2, 0) vel (3 / 2) 1)"

section \<open>Basic facts about vectors\<close>

lemma dot_nonneg: "0 \<le> dot v v"
  by (cases v) simp

lemma linalg_norm_nonneg: "0 \<le> linalg_norm v"
  by (simp add: linalg_norm_def dot_nonneg)

lemma linalg_norm_axis_x: "linalg_norm (a, 0, 0) = \<bar>a\<bar>"
  by (simp add: linalg_norm_def)

lemma linalg_norm_axis_y: "linalg_norm (0, b, 0) = \<bar>b\<bar>"
  by (simp add: linalg_norm_def)

lemma linalg_norm_axis_z: "linalg_norm (0, 0, c) = \<bar>c\<bar>"
  by (simp add: linalg_norm_def)

lemma dot_sdiv_sdiv: "dot (sdiv v k) (sdiv v k) = dot v v / (k * k)"
  by (cases v) (simp add: add_divide_distrib)

lemma unit_of_sdiv_sqrt:
  assumes "0 < dot v v"
  shows "dot (sdiv v (sqrt (dot v v))) (sdiv v (sqrt (dot v v))) = 1"
proof -
  have "sqrt (dot v v) * sqrt (dot v v) = dot v v"
    using assms by simp
  then show ?thesis
    using assms by (simp add: dot_sdiv_sdiv)
qed

lemma dot_vsub_swap: "dot (vsub a b) (vsub a b) = dot (vsub b a) (vsub b a)"
  by (cases a; cases b) (simp add: algebra_simps)

lemma linalg_norm_sq: "linalg_norm v * linalg_norm v = dot v v"
  by (simp add: linalg_norm_def dot_nonneg)

section \<open>Sphere against sphere\<close>

text \<open>
  Claim C2, as amended. \<open>check_sphere_sphere\<close> reports a hit iff the squared distance
  of the centres is strictly less than the square of the sum of the radii. On a hit
  with squared distance above \<open>1e-4\<close> the normal is the unit vector from the first
  sphere A toward the second sphere B (the direction \<open>posB - posA\<close>, not
  \<open>posA - posB\<close>); on a hit with squared distance at most \<open>1e-4\<close> it is the fixed
  vector \<open>+Y\<close>; with no hit there is no normal.
\<close>

theorem check_sphere_sphere_amended:
  fixes posA posB :: vec3 and rA rB :: real
  defines "dist2 \<equiv> dot (vsub posA posB) (vsub posA posB)"
  defines "toB \<equiv> sdiv (vsub posB posA) (linalg_norm (vsub posB posA))"
  shows "(fst (check_sphere_sphere posA rA posB rB) \<longleftrightarrow> dist2 < (rA + rB) * (rA + rB))
       \<and> (dist2 < (rA + rB) * (rA + rB) \<and> dist2 > 0.0001 \<longrightarrow>
            snd (check_sphere_sphere posA rA posB rB) = Some toB \<and> dot toB toB = 1)
       \<and> (dist2 < (rA + rB) * (rA + rB) \<and> dist2 \<le> 0.0001 \<longrightarrow>
            snd (check_sphere_sphere posA rA posB rB) = Some (0, 1, 0))
       \<and> (\<not> dist2 < (rA + rB) * (rA + rB) \<longrightarrow>
            snd (check_sphere_sphere posA rA posB rB) = None)"
proof -
  have sw: "dot (vsub posB posA) (vsub posB posA) = dist2"
    unfolding dist2_def by (rule dot_vsub_swap)
  have unit: "dist2 > 0.0001 \<Longrightarrow> dot toB toB = 1"
    unfolding toB_def linalg_norm_def using unit_of_sdiv_sqrt [of "vsub posB posA"] sw by simp
  show ?thesis
    using unit by (simp add: check_sphere_sphere_def Let_def sw toB_def linalg_norm_def)
qed

text \<open>
  Claim C2: the amended statement at three inputs: overlapping spheres one unit apart along X,
  coincident spheres, and spheres three units apart.
\<close>

theorem check_sphere_sphere_amended_witness:
  "fst (check_sphere_sphere (0, 0, 0) 1 (1, 0, 0) 1)
   \<and> snd (check_sphere_sphere (0, 0, 0) 1 (1, 0, 0) 1) = Some (1, 0, 0)
   \<and> snd (check_sphere_sphere (0, 0, 0) 1 (0, 0, 0) 1) = Some (0, 1, 0)
   \<and> snd (check_sphere_sphere (0, 0, 0) 1 (3, 0, 0) 1) = None"
  using check_sphere_sphere_amended [where posA = "(0, 0, 0)" and posB = "(1, 0, 0)" and rA = 1 and rB = 1]
        check_sphere_sphere_amended [where posA = "(0, 0, 0)" and posB = "(0, 0, 0)" and rA = 1 and rB = 1]
        check_sphere_sphere_amended [where posA = "(0, 0, 0)" and posB = "(3, 0, 0)" and rA = 1 and rB = 1]
  by (simp add: linalg_norm_axis_x)

text \<open>
  Claim C2 as stated fails: with A at the origin and B at \<open>(1, 0, 0)\<close>, both of radius
  1, the normal returned is \<open>(1, 0, 0)\<close>, while the unit vector from B toward A is
  \<open>(-1, 0, 0)\<close>.
\<close>

theorem check_sphere_sphere_normal_counterexample:
  "check_sphere_sphere (0, 0, 0) 1 (1, 0, 0) 1 = (True, Some (1, 0, 0))
   \<and> sdiv (vsub (0, 0, 0) (1, 0, 0)) (linalg_norm (vsub (0, 0, 0) (1, 0, 0))) = (-1, 0, 0)"
  by (simp add: check_sphere_sphere_def linalg_norm_axis_x)

section \<open>Layer filtering\<close>

lemma layers_of: "l \<in> set (map fst (filter (\<lambda>(layer_name, objects). i \<in> objects) collision_layers))
   \<longleftrightarrow> (\<exists>objects. (l, objects) \<in> set collision_layers \<and> i \<in> objects)"
  by (induction collision_layers) auto

lemma list_ex_matrix:
  "list_ex (\<lambda>layer1. case m layer1 of None \<Rightarrow> False
                     | Some allowed \<Rightarrow> list_ex (\<lambda>layer2. layer2 \<in> set allowed) B) A
   \<longleftrightarrow> (\<exists>layer1 allowed layer2. layer1 \<in> set A \<and> m layer1 = Some allowed
          \<and> layer2 \<in> set B \<and> layer2 \<in> set allowed)"
  unfolding list_ex_iff
  apply (auto split: option.splits)
  subgoal by blast
  subgoal for layer1 allowed layer2
    by (rule bexI [of _ layer1]) auto
  done

text \<open>
  Claim C3, as amended. A pair \<open>(a, b)\<close> is checked iff the matrix declares a
  permission from a layer of the first body \<open>a\<close> to a layer of the second body \<open>b\<close>:
  the matrix is consulted in the direction layer(a) to layer(b) only. A permission
  declared only from a layer of \<open>b\<close> to a layer of \<open>a\<close> does not cause a check.
\<close>

theorem should_check_collision_amended:
  "should_check_collision collision_layers a b collision_matrix \<longleftrightarrow>
     (\<exists>(layer1, objects1) \<in> set collision_layers. a \<in> objects1 \<and>
        (\<exists>allowed. collision_matrix layer1 = Some allowed \<and>
           (\<exists>(layer2, objects2) \<in> set collision_layers. b \<in> objects2 \<and> layer2 \<in> set allowed)))"
proof -
  have "should_check_collision collision_layers a b collision_matrix \<longleftrightarrow>
     (\<exists>layer1 allowed layer2.
        (\<exists>objects. (layer1, objects) \<in> set collision_layers \<and> a \<in> objects)
        \<and> collision_matrix layer1 = Some allowed
        \<and> (\<exists>objects. (layer2, objects) \<in> set collision_layers \<and> b \<in> objects)
        \<and> layer2 \<in> set allowed)"
    unfolding should_check_collision_def Let_def list_ex_matrix layers_of ..
  also have "\<dots> \<longleftrightarrow> (\<exists>(layer1, objects1) \<in> set collision_layers. a \<in> objects1 \<and>
        (\<exists>allowed. collision_matrix layer1 = Some allowed \<and>
           (\<exists>(layer2, objects2) \<in> set collision_layers. b \<in> objects2 \<and> layer2 \<in> set allowed)))"
    by (simp only: Bex_def split_paired_Ex prod.case) blast
  finally show ?thesis .
qed

text \<open>
  Claim C3: the amended statement at the layers \<open>player = {1}\<close>, \<open>enemy = {2}\<close> and the matrix
  \<open>enemy \<rightarrow> [player]\<close>, in both orders of the two bodies.
\<close>

theorem should_check_collision_amended_witness:
  "should_check_collision [(''player'', {1}), (''enemy'', {2})] 2 1 [''enemy'' \<mapsto> [''player'']]
   \<and> \<not> should_check_collision [(''player'', {1}), (''enemy'', {2})] 1 2 [''enemy'' \<mapsto> [''player'']]"
  using should_check_collision_amended [of "[(''player'', {1}), (''enemy'', {2})]" 2 1 "[''enemy'' \<mapsto> [''player'']]"]
    should_check_collision_amended [of "[(''player'', {1}), (''enemy'', {2})]" 1 2 "[''enemy'' \<mapsto> [''player'']]"]
  by simp

text \<open>
  Claim C3 as stated fails: the matrix declares \<open>enemy \<rightarrow> player\<close>, body 2 is an
  enemy and body 1 a player, the double loop visits the pair as \<open>(1, 2)\<close> only, and
  \<open>should_check_collision\<close> answers no for it.
\<close>

theorem should_check_collision_direction_counterexample:
  "[''enemy'' \<mapsto> [''player'']] ''enemy'' = Some [''player'']
   \<and> (2::nat) \<in> {2} \<and> (1::nat) \<in> {1}
   \<and> pairs [1::nat, 2] = [(1, 2)]
   \<and> \<not> should_check_collision [(''player'', {1}), (''enemy'', {2})] 1 2 [''enemy'' \<mapsto> [''player'']]"
  by (simp add: should_check_collision_def)

section \<open>Sphere against box in the manager\<close>

lemma check_sphere_box_above:
  "check_sphere_box (0, 2, 0) (3 / 2) (0, 0, 0) (1, 1, 1) = (True, Some (0, 1, 0))"
  by simp

lemma two_body_check:
  "should_check_collision [(''a'', {10, 20})] i j [''a'' \<mapsto> [''a'']]
   \<longleftrightarrow> i \<in> {10, 20} \<and> j \<in> {10, 20}"
  by (auto simp add: should_check_collision_def)

lemmas mixed_unfold = process_collisions_def process_pair_def two_body_check lookup_def key_def
  bind_def detect_collision_def sphere_body_def box_body_def plain_body_def resolve_pair_def
  set_velocity_def set_position_def read_back_def sphere_then_box_def box_then_sphere_def Let_def

text \<open>
  Claim C4 fails on the code. The sphere-box detector returns the normal from the box
  toward the sphere, here \<open>+Y\<close>. The resolution that follows, like
  \<open>resolve_sphere_collision\<close>, takes the relative velocity of the first body against the
  second and skips the pair as moving apart when its component along the normal is
  positive, so it needs the normal from the second body toward the first: the
  detector's normal as returned when the sphere is first, negated when the box is
  first, as the claim says. The code negates in the other branch: the resolution gets
  \<open>-Y\<close> with the sphere first and \<open>+Y\<close> with the box first. With the snapshot ids 10
  and 20 in one layer and restitution 1, a sphere falling onto the box with velocity
  \<open>(0, -1, 0)\<close> is left unresolved in both orders, and a sphere moving away with
  velocity \<open>(0, 1, 0)\<close> is given an impulse and a position correction that push the
  two bodies together, in both orders. The last two equations resolve the falling
  sphere with the normal the claim prescribes: the velocities are exchanged and the
  bodies are pushed apart.
\<close>

theorem sphere_box_normal_misdirected:
  "detect_collision (sphere_then_box (0, -1, 0) 0) (sphere_then_box (0, -1, 0) 1)
     = Inr (True, Some (0, -1, 0))
   \<and> detect_collision (box_then_sphere (0, -1, 0) 0) (box_then_sphere (0, -1, 0) 1)
     = Inr (True, Some (0, 1, 0))
   \<and> read_back [(10, 0), (20, 1)]
       (process_collisions [(''a'', {10, 20})] [(10, 0), (20, 1)] [''a'' \<mapsto> [''a'']] 1
          (sphere_then_box (0, -1, 0)))
     = Inr [(10, (0, 2, 0), (0, -1, 0)), (20, (0, 0, 0), (0, 0, 0))]
   \<and> read_back [(10, 0), (20, 1)]
       (process_collisions [(''a'', {10, 20})] [(10, 0), (20, 1)] [''a'' \<mapsto> [''a'']] 1
          (box_then_sphere (0, -1, 0)))
     = Inr [(10, (0, 0, 0), (0, 0, 0)), (20, (0, 2, 0), (0, -1, 0))]
   \<and> read_back [(10, 0), (20, 1)]
       (process_collisions [(''a'', {10, 20})] [(10, 0), (20, 1)] [''a'' \<mapsto> [''a'']] 1
          (sphere_then_box (0, 1, 0)))
     = Inr [(10, (0, 49 / 25, 0), (0, 0, 0)), (20, (0, 1 / 25, 0), (0, 1, 0))]
   \<and> read_back [(10, 0), (20, 1)]
       (process_collisions [(''a'', {10, 20})] [(10, 0), (20, 1)] [''a'' \<mapsto> [''a'']] 1
          (box_then_sphere (0, 1, 0)))
     = Inr [(10, (0, 1 / 25, 0), (0, 1, 0)), (20, (0, 49 / 25, 0), (0, 0, 0))]
   \<and> read_back [(10, 0), (20, 1)] (resolve_pair 0 1 1 (0, 1, 0) (sphere_then_box (0, -1, 0)))
     = Inr [(10, (0, 51 / 25, 0), (0, 0, 0)), (20, (0, - 1 / 25, 0), (0, -1, 0))]
   \<and> read_back [(10, 0), (20, 1)] (resolve_pair 0 1 1 (0, -1, 0) (box_then_sphere (0, -1, 0)))
     = Inr [(10, (0, - 1 / 25, 0), (0, -1, 0)), (20, (0, 51 / 25, 0), (0, 0, 0))]"
  by (simp add: mixed_unfold)

section \<open>Dash\<close>

text \<open>
  Claim C10. With a dash direction of norm at most 0.001, \<open>process_dash\<close> returns the
  body as it is: the division by the norm is not reached. With a longer direction it
  adds the normalised direction times the force, divided by the mass, to the velocity
  and changes no other field. The mass is \<open>obj.get('mass', 1.0)\<close>; a mass of zero,
  which the data model excludes, makes the sum non-finite.
\<close>

theorem process_dash_correct:
  "(linalg_norm dash_direction \<le> 0.001 \<longrightarrow> process_dash obj dash_direction dash_force = Inr obj)
   \<and> (linalg_norm dash_direction > 0.001 \<and> get (b_mass obj) 1 \<noteq> 0 \<longrightarrow>
        process_dash obj dash_direction dash_force =
          Inr (obj\<lparr>b_velocity :=
                 vadd (b_velocity obj)
                   (sdiv (smul (sdiv dash_direction (linalg_norm dash_direction)) dash_force)
                      (get (b_mass obj) 1))\<rparr>))
   \<and> (linalg_norm dash_direction > 0.001 \<and> get (b_mass obj) 1 = 0 \<longrightarrow>
        process_dash obj dash_direction dash_force = Inl NonFinite)"
proof (cases "linalg_norm dash_direction > 0.001")
  case False
  then have "process_dash obj dash_direction dash_force = Inr obj"
    by (simp add: process_dash_def)
  with False show ?thesis by simp
next
  case True
  let ?impulse = "smul (sdiv dash_direction (linalg_norm dash_direction)) dash_force"
  have dash: "process_dash obj dash_direction dash_force =
                bind (apply_impulse (get (b_mass obj) 1) (b_velocity obj) ?impulse)
                  (\<lambda>v. Inr (obj\<lparr>b_velocity := v\<rparr>))"
    using True by (simp add: process_dash_def Let_def)
  show ?thesis
  proof (cases "get (b_mass obj) 1 = 0")
    case zero: True
    then have "apply_impulse (get (b_mass obj) 1) (b_velocity obj) ?impulse = Inl NonFinite"
      by (simp add: apply_impulse_def)
    with dash zero True show ?thesis by (simp add: bind_def)
  next
    case nonzero: False
    then have "apply_impulse (get (b_mass obj) 1) (b_velocity obj) ?impulse
               = Inr (vadd (b_velocity obj) (sdiv ?impulse (get (b_mass obj) 1)))"
      by (simp add: apply_impulse_def)
    with dash nonzero True show ?thesis by (simp add: bind_def)
  qed
qed

text \<open>
  Claim C10: the statement at a body of mass 2 with the zero direction and with the direction
  \<open>(4, 0, 0)\<close> and force 10, and at a body of mass 0.
\<close>

theorem process_dash_correct_witness:
  "process_dash (sphere_body (0, 0, 0) (1, 2, 3) 1 2) (0, 0, 0) 10
     = Inr (sphere_body (0, 0, 0) (1, 2, 3) 1 2)
   \<and> process_dash (sphere_body (0, 0, 0) (1, 2, 3) 1 2) (4, 0, 0) 10
     = Inr (sphere_body (0, 0, 0) (6, 2, 3) 1 2)
   \<and> process_dash (sphere_body (0, 0, 0) (1, 2, 3) 1 0) (4, 0, 0) 10 = Inl NonFinite"
  using process_dash_correct [of "(0, 0, 0)" "sphere_body (0, 0, 0) (1, 2, 3) 1 2" 10]
    process_dash_correct [of "(4, 0, 0)" "sphere_body (0, 0, 0) (1, 2, 3) 1 2" 10]
    process_dash_correct [of "(4, 0, 0)" "sphere_body (0, 0, 0) (1, 2, 3) 1 0" 10]
  by (simp add: linalg_norm_axis_x sphere_body_def plain_body_def get_def)

section \<open>The driver\<close>

text \<open>
  Claim C9, as amended. A body whose \<open>has_physics\<close> flag is present and false is
  passed through with every field untouched. Every other body, also one that lacks the
  flag (the default of the lookup is \<open>True\<close>), is run through the integrator
  \<open>process_object_motion\<close>, and then through \<open>apply_movement_input\<close> exactly when it
  has a true controller flag and an \<open>input_direction\<close>, with its own sprint and crouch
  flags. \<open>update\<close> returns a snapshot iff every body's update returns, and then it is
  the snapshot of the updated bodies under the same ids in the same order.
\<close>

theorem update_amended:
  "(b_has_physics obj = Some False \<longrightarrow> update_object mo om obj delta_time = Inr obj)
   \<and> (b_has_physics obj \<noteq> Some False \<longrightarrow>
        update_object mo om obj delta_time =
          (if b_has_controller obj = Some True \<and> b_input_direction obj \<noteq> None
           then apply_movement_input om (process_object_motion mo obj delta_time)
                  (the (b_input_direction obj)) delta_time
                  (b_is_sprinting obj = Some True) (b_is_crouching obj = Some True)
           else Inr (process_object_motion mo obj delta_time)))
   \<and> (\<forall>res. update mo om objs delta_time = Inr res \<longleftrightarrow>
        list_all2 (\<lambda>(i, obj) (i', obj'). i' = i \<and> update_object mo om obj delta_time = Inr obj')
          objs res)"
proof -
  have a: "b_has_physics obj = Some False \<longrightarrow> update_object mo om obj delta_time = Inr obj"
    by (simp add: update_object_def get_def)
  have g: "\<And>v d. get v d = (case v of None \<Rightarrow> d | Some x \<Rightarrow> x)"
    by (simp add: get_def)
  have b: "b_has_physics obj \<noteq> Some False \<longrightarrow>
        update_object mo om obj delta_time =
          (if b_has_controller obj = Some True \<and> b_input_direction obj \<noteq> None
           then apply_movement_input om (process_object_motion mo obj delta_time)
                  (the (b_input_direction obj)) delta_time
                  (b_is_sprinting obj = Some True) (b_is_crouching obj = Some True)
           else Inr (process_object_motion mo obj delta_time))"
    by (cases "b_has_physics obj"; cases "b_has_controller obj"; cases "b_input_direction obj";
        cases "b_is_sprinting obj"; cases "b_is_crouching obj")
       (auto simp add: update_object_def get_def Let_def)
  have c: "\<And>res. update mo om objs delta_time = Inr res \<longleftrightarrow>
        list_all2 (\<lambda>(i, obj) (i', obj'). i' = i \<and> update_object mo om obj delta_time = Inr obj')
          objs res"
  proof (induction objs)
    case Nil
    show ?case by auto
  next
    case (Cons p objs)
    obtain i obj where p: "p = (i, obj)" by (cases p)
    show ?case
      unfolding p
      by (cases "update_object mo om obj delta_time"; cases "update mo om objs delta_time")
         (auto simp add: list_all2_Cons1 Cons.IH [symmetric])
  qed
  from a b c show ?thesis by blast
qed

text \<open>
  Claim C9: the amended statement at a body with the flag false, at the same body with the flag
  true, and at a snapshot of one body.
\<close>

theorem update_amended_witness:
  "update_object motion_init omni_movement_init
      ((plain_body (1, 2, 3) (0, 5, 0))\<lparr>b_has_physics := Some False\<rparr>) 1
     = Inr ((plain_body (1, 2, 3) (0, 5, 0))\<lparr>b_has_physics := Some False\<rparr>)
   \<and> update_object motion_init omni_movement_init
      ((plain_body (1, 2, 3) (0, 5, 0))\<lparr>b_has_physics := Some True\<rparr>) 1
     = Inr (process_object_motion motion_init
              ((plain_body (1, 2, 3) (0, 5, 0))\<lparr>b_has_physics := Some True\<rparr>) 1)
   \<and> update motion_init omni_movement_init
      [(7, (plain_body (1, 2, 3) (0, 5, 0))\<lparr>b_has_physics := Some False\<rparr>)] 1
     = Inr [(7, (plain_body (1, 2, 3) (0, 5, 0))\<lparr>b_has_physics := Some False\<rparr>)]"
  using update_amended [of "(plain_body (1, 2, 3) (0, 5, 0))\<lparr>b_has_physics := Some False\<rparr>"
      motion_init omni_movement_init 1
      "[(7, (plain_body (1, 2, 3) (0, 5, 0))\<lparr>b_has_physics := Some False\<rparr>)]"]
    update_amended [of "(plain_body (1, 2, 3) (0, 5, 0))\<lparr>b_has_physics := Some True\<rparr>"
      motion_init omni_movement_init 1 "[]"]
  by (simp add: plain_body_def)

text \<open>
  Claim C9 as stated fails: an airborne body at rest that lacks the \<open>has_physics\<close>
  key is not passed through; after a tick of one second under the default settings it
  has fallen, with velocity and position \<open>(0, -9.7119, 0)\<close>.
\<close>

theorem update_missing_flag_counterexample:
  "b_has_physics (plain_body (0, 0, 0) (0, 0, 0)) = None
   \<and> update_object motion_init omni_movement_init (plain_body (0, 0, 0) (0, 0, 0)) 1
     = Inr (plain_body (0, - 9.7119, 0) (0, - 9.7119, 0))
   \<and> update motion_init omni_movement_init [(7, plain_body (0, 0, 0) (0, 0, 0))] 1
     = Inr [(7, plain_body (0, - 9.7119, 0) (0, - 9.7119, 0))]"
  by (simp add: update_object_def process_object_motion_def plain_body_def get_def motion_init_def
      apply_gravity_def apply_air_resistance_def apply_ground_friction_def update_position_def
      linalg_norm_axis_y Let_def)

section \<open>Impulse resolution of two spheres\<close>

lemma dot_vadd_left: "dot (vadd a b) c = dot a c + dot b c"
  by (cases a; cases b; cases c) (simp add: algebra_simps)

lemma dot_vsub_left: "dot (vsub a b) c = dot a c - dot b c"
  by (cases a; cases b; cases c) (simp add: algebra_simps)

lemma dot_smul_left: "dot (smul a k) c = k * dot a c"
  by (cases a; cases c) (simp add: algebra_simps)

lemma momentum_exchange:
  assumes "m1 \<noteq> 0" and "m2 \<noteq> 0"
  shows "vadd (smul (vadd v1 (smul n (j / m1))) m1) (smul (vsub v2 (smul n (j / m2))) m2)
       = vadd (smul v1 m1) (smul v2 m2)"
  using assms by (cases v1; cases v2; cases n) (simp add: field_simps)

lemma unit_of_sdiv_norm:
  assumes "\<not> linalg_norm v < 0.0001"
  shows "dot (sdiv v (linalg_norm v)) (sdiv v (linalg_norm v)) = 1"
proof -
  have "0 < linalg_norm v" using assms by simp
  then have "0 < dot v v"
    unfolding linalg_norm_def by simp
  then show ?thesis
    unfolding linalg_norm_def by (rule unit_of_sdiv_sqrt)
qed

text \<open>
  Claim C6, as amended. For positive masses \<open>resolve_sphere_collision\<close> returns a
  pair of velocities, and \<open>m1 * v1' + m2 * v2'\<close> equals \<open>m1 * v1 + m2 * v2\<close> in every
  branch. The contact normal \<open>n\<close> is the unit vector of \<open>pos1 - pos2\<close>. With
  restitution 0, when the centres are at least \<open>1e-4\<close> apart and the bodies are not
  separating, the two returned velocities have the same component along \<open>n\<close>. When
  the bodies are separating (relative velocity along \<open>n\<close> positive), and when the
  centres are closer than \<open>1e-4\<close>, both velocities are returned unchanged.
\<close>

theorem resolve_sphere_collision_amended:
  fixes pos1 pos2 velocity1 velocity2 :: vec3
  defines "n \<equiv> sdiv (vsub pos1 pos2) (linalg_norm (vsub pos1 pos2))"
  defines "approach \<equiv> dot (vsub velocity1 velocity2) n"
  assumes m: "0 < mass1" "0 < mass2"
  shows "\<exists>v1' v2'.
           resolve_sphere_collision pos1 velocity1 mass1 radius1 pos2 velocity2 mass2 radius2 restitution
             = Inr (v1', v2')
         \<and> vadd (smul v1' mass1) (smul v2' mass2) = vadd (smul velocity1 mass1) (smul velocity2 mass2)
         \<and> (restitution = 0 \<and> \<not> linalg_norm (vsub pos1 pos2) < 0.0001 \<and> approach \<le> 0
              \<longrightarrow> dot v1' n = dot v2' n)
         \<and> (approach > 0 \<longrightarrow> v1' = velocity1 \<and> v2' = velocity2)
         \<and> (linalg_norm (vsub pos1 pos2) < 0.0001 \<longrightarrow> v1' = velocity1 \<and> v2' = velocity2)"
proof (cases "linalg_norm (vsub pos1 pos2) < 0.0001 \<or> approach > 0")
  case True
  then have "resolve_sphere_collision pos1 velocity1 mass1 radius1 pos2 velocity2 mass2 radius2 restitution
             = Inr (velocity1, velocity2)"
    unfolding resolve_sphere_collision_def Let_def approach_def n_def by auto
  with True show ?thesis by auto
next
  case False
  define k where "k = 1 / mass1 + 1 / mass2"
  define j where "j = (- (1 + restitution) * approach) / k"
  have kpos: "0 < k" unfolding k_def using m by (intro add_pos_pos) simp_all
  have far: "\<not> linalg_norm (vsub pos1 pos2) < 0.0001" and app: "approach \<le> 0"
    using False by auto
  have res: "resolve_sphere_collision pos1 velocity1 mass1 radius1 pos2 velocity2 mass2 radius2 restitution
             = Inr (vadd velocity1 (smul n (j / mass1)), vsub velocity2 (smul n (j / mass2)))"
    using far app m kpos
    unfolding resolve_sphere_collision_def Let_def approach_def [symmetric] n_def [symmetric]
      j_def k_def
    by auto
  have mom: "vadd (smul (vadd velocity1 (smul n (j / mass1))) mass1)
                  (smul (vsub velocity2 (smul n (j / mass2))) mass2)
             = vadd (smul velocity1 mass1) (smul velocity2 mass2)"
    using m by (intro momentum_exchange) auto
  have nn: "dot n n = 1"
    unfolding n_def using far by (rule unit_of_sdiv_norm)
  have eq: "dot (vadd velocity1 (smul n (j / mass1))) n = dot (vsub velocity2 (smul n (j / mass2))) n"
    if "restitution = 0"
  proof -
    have "j * k = - approach" unfolding j_def using kpos that by simp
    then have "approach + j / mass1 + j / mass2 = 0"
      unfolding k_def by (simp add: algebra_simps)
    moreover have "dot (vadd velocity1 (smul n (j / mass1))) n
                   - dot (vsub velocity2 (smul n (j / mass2))) n
                 = approach + j / mass1 + j / mass2"
      unfolding approach_def by (simp add: dot_vadd_left dot_vsub_left dot_smul_left nn)
    ultimately show ?thesis by simp
  qed
  from res mom eq app far show ?thesis by auto
qed

text \<open>
  Claim C6: the amended statement at two unit spheres of mass 1 with restitution 0. One
  unit apart, the first moving toward the second, both end with velocity \<open>1/2\<close> along
  X; the first moving away, both velocities are unchanged; with the centres \<open>5e-5\<close>
  apart both velocities are unchanged.
\<close>

theorem resolve_sphere_collision_amended_witness:
  "resolve_sphere_collision (0, 0, 0) (1, 0, 0) 1 1 (1, 0, 0) (0, 0, 0) 1 1 0
     = Inr ((1 / 2, 0, 0), (1 / 2, 0, 0))
   \<and> resolve_sphere_collision (0, 0, 0) (-1, 0, 0) 1 1 (1, 0, 0) (0, 0, 0) 1 1 0
     = Inr ((-1, 0, 0), (0, 0, 0))
   \<and> resolve_sphere_collision (0, 0, 0) (1, 0, 0) 1 1 (0.00005, 0, 0) (0, 0, 0) 1 1 0
     = Inr ((1, 0, 0), (0, 0, 0))"
  using resolve_sphere_collision_amended [where ?pos1.0 = "(0, 0, 0)" and ?velocity1.0 = "(1, 0, 0)"
      and ?mass1.0 = 1 and ?radius1.0 = 1 and ?pos2.0 = "(1, 0, 0)" and ?velocity2.0 = "(0, 0, 0)"
      and ?mass2.0 = 1 and ?radius2.0 = 1 and restitution = 0]
    resolve_sphere_collision_amended [where ?pos1.0 = "(0, 0, 0)" and ?velocity1.0 = "(-1, 0, 0)"
      and ?mass1.0 = 1 and ?radius1.0 = 1 and ?pos2.0 = "(1, 0, 0)" and ?velocity2.0 = "(0, 0, 0)"
      and ?mass2.0 = 1 and ?radius2.0 = 1 and restitution = 0]
    resolve_sphere_collision_amended [where ?pos1.0 = "(0, 0, 0)" and ?velocity1.0 = "(1, 0, 0)"
      and ?mass1.0 = 1 and ?radius1.0 = 1 and ?pos2.0 = "(0.00005, 0, 0)" and ?velocity2.0 = "(0, 0, 0)"
      and ?mass2.0 = 1 and ?radius2.0 = 1 and restitution = 0]
  by (simp add: linalg_norm_axis_x resolve_sphere_collision_def Let_def)

text \<open>
  Claim C6 as stated fails for restitution 0 when the centres nearly coincide: with the
  centres \<open>5e-5\<close> apart the contact normal is \<open>(-1, 0, 0)\<close>, the first sphere moves
  toward the second (relative velocity along the normal \<open>-1\<close>, so the bodies are not
  separating), and the velocities come back unchanged, with the components \<open>-1\<close> and
  \<open>0\<close> along the normal.
\<close>

theorem resolve_sphere_collision_near_centres_counterexample:
  "resolve_sphere_collision (0, 0, 0) (1, 0, 0) 1 1 (0.00005, 0, 0) (0, 0, 0) 1 1 0
     = Inr ((1, 0, 0), (0, 0, 0))
   \<and> sdiv (vsub (0, 0, 0) (0.00005, 0, 0)) (linalg_norm (vsub (0, 0, 0) (0.00005, 0, 0)))
     = (-1, 0, 0)
   \<and> dot (vsub (1, 0, 0) (0, 0, 0)) (-1, 0, 0) = -1
   \<and> dot (1, 0, 0) (-1, 0, 0) = -1
   \<and> dot (0, 0, 0) (-1, 0, 0) = 0"
  by (simp add: linalg_norm_axis_x resolve_sphere_collision_def Let_def)

section \<open>Deceleration without input\<close>

text \<open>
  Claim C7 fails on the code. With zero input \<open>apply_movement_input\<close> subtracts
  \<open>deceleration * delta_time\<close> from the horizontal speed with no clamp. Under the
  default settings, a grounded body with horizontal velocity \<open>(0.2, 0, 0)\<close> and a tick
  of 0.02 seconds comes out with velocity \<open>(-0.3, 0, 0)\<close>: the direction is reversed
  and the speed has grown. The next tick returns it to \<open>(0.2, 0, 0)\<close>, so repeated
  ticks never bring it to rest.
\<close>

theorem omni_decay_overshoots:
  "apply_movement_input omni_movement_init (plain_body (0, 0, 0) (0.2, 0, 0)) (0, 0, 0) 0.02 False False
     = Inr (plain_body (0, 0, 0) (- 0.3, 0, 0))
   \<and> apply_movement_input omni_movement_init (plain_body (0, 0, 0) (- 0.3, 0, 0)) (0, 0, 0) 0.02 False False
     = Inr (plain_body (0, 0, 0) (0.2, 0, 0))"
  by (simp add: apply_movement_input_def omni_movement_init_def plain_body_def get_def
      apply_force_def bind_def linalg_norm_axis_x Let_def)

section \<open>Blending the direction of gravity\<close>

text \<open>
  Claim C8 fails on the code. The global direction is \<open>(0, -1, 0)\<close>, normalised by
  the constructor; the zone at the origin has radius 2 and the direction \<open>(0, 1, 0)\<close>;
  the body is at \<open>(1, 0, 0)\<close>, so the influence is \<open>1/2\<close>, above the threshold 0.05.
  The blend \<open>(1 - 1/2) * (0, -1, 0) + 1/2 * (0, 1, 0)\<close> is the zero vector and its
  normalisation divides by zero: the direction returned is not finite.
\<close>

theorem modify_gravity_opposite_directions:
  "gravity_system_init 9.81 (0, -1, 0)
     = Inr \<lparr>gs_gravity_constant = 9.81, gs_gravity_direction = (0, -1, 0),
            gs_gravity_vector = (0, - 9.81, 0)\<rparr>
   \<and> get_influence_factor
       \<lparr>gz_position = (0, 0, 0), gz_radius = 2, gz_gravity_modifier = 1,
        gz_gravity_direction = Some (0, 1, 0), gz_is_enabled = True\<rparr> (1, 0, 0) = Inr (1 / 2)
   \<and> modify_gravity
       \<lparr>gz_position = (0, 0, 0), gz_radius = 2, gz_gravity_modifier = 1,
        gz_gravity_direction = Some (0, 1, 0), gz_is_enabled = True\<rparr>
       \<lparr>gs_gravity_constant = 9.81, gs_gravity_direction = (0, -1, 0),
        gs_gravity_vector = (0, - 9.81, 0)\<rparr>
       (1, 0, 0) 0.05
     = Inl NonFinite"
  by (simp add: gravity_system_init_def modify_gravity_def get_influence_factor_def is_in_zone_def
      bind_def linalg_norm_axis_x linalg_norm_axis_y Let_def)

section \<open>One pass over three spheres\<close>

lemma one_layer_check:
  "should_check_collision [(''a'', {10, 20, 30})] i j [''a'' \<mapsto> [''a'']]
   \<longleftrightarrow> i \<in> {10, 20, 30} \<and> j \<in> {10, 20, 30}"
  by (auto simp add: should_check_collision_def)

lemmas pass_unfold = process_pair_def one_layer_check lookup_def key_def bind_def
  detect_collision_def sphere_body_def plain_body_def check_sphere_sphere_def resolve_pair_def
  resolve_sphere_collision_def resolve_penetration_def linalg_norm_axis_x
  set_velocity_def set_position_def read_back_def Let_def

text \<open>
  Claim C1 fails on the code. The snapshot holds the ids 10, 20, 30 for the three
  spheres, all in one layer that collides with itself, and the restitution is 1. The
  first and the second sphere overlap; the second and the third are exactly two units
  apart and do not. The pass resolves the first pair and moves the second sphere to
  \<open>x = 3/2\<close>; the detection of the pair of the second and the third sphere reads this
  corrected position, finds an overlap and resolves it. What the caller reads after
  the call, through the dict it passed in as through the dict returned, is the first
  list. A pass that updates a copy and reads the snapshot, as the claim has it, gives
  the second list and leaves the input as it was, the third list.
\<close>

theorem process_collisions_shares_bodies:
  "read_back [(10, 0), (20, 1), (30, 2)]
     (process_collisions [(''a'', {10, 20, 30})] [(10, 0), (20, 1), (30, 2)]
        [''a'' \<mapsto> [''a'']] 1 three_spheres)
     = Inr [(10, (- 1 / 2, 0, 0), (0, 0, 0)),
            (20, (5 / 4, 0, 0), (0, 0, 0)),
            (30, (13 / 4, 0, 0), (1, 0, 0))]
   \<and> read_back [(10, 0), (20, 1), (30, 2)]
     (spec_process_collisions [(''a'', {10, 20, 30})] [(10, 0), (20, 1), (30, 2)]
        [''a'' \<mapsto> [''a'']] 1 three_spheres)
     = Inr [(10, (- 1 / 2, 0, 0), (0, 0, 0)),
            (20, (3 / 2, 0, 0), (1, 0, 0)),
            (30, (3, 0, 0), (0, 0, 0))]
   \<and> read_back [(10, 0), (20, 1), (30, 2)] (Inr three_spheres)
     = Inr [(10, (0, 0, 0), (1, 0, 0)),
            (20, (1, 0, 0), (0, 0, 0)),
            (30, (3, 0, 0), (0, 0, 0))]"
  by (simp add: three_spheres_def process_collisions_def spec_process_collisions_def
      spec_process_pair_def spec_resolve_pair_def pass_unfold)

section \<open>Ray casting: the closest hit\<close>

lemma vec3_components: "\<exists>a b c. (v :: vec3) = (a, b, c)"
  by (cases v) simp

lemma ray_object_hit_sphere:
  assumes "ro_type obj = ''sphere''" and "ro_radius obj = Some r" and "r \<noteq> 0"
  shows "ray_object_hit ray_origin ray_direction c obj =
           Inr (case ray_sphere_distance ray_origin ray_direction (ro_position obj) r of
                  None \<Rightarrow> None
                | Some t \<Rightarrow>
                    if t < c
                    then Some (t, sdiv (vsub (vadd ray_origin (smul ray_direction t)) (ro_position obj)) r)
                    else None)"
  using assms by (simp add: ray_object_hit_def Let_def split: option.splits)

lemma ray_object_hit_box:
  assumes "ro_type obj = ''box''" and "ro_half_size obj = Some h"
  shows "ray_object_hit ray_origin ray_direction c obj =
           Inr (case ray_box_distance ray_origin ray_direction (ro_position obj) h of
                  Some (Some t, n) \<Rightarrow> if t > 0 \<and> t < c then Some (t, n) else None
                | _ \<Rightarrow> None)"
  using assms by (simp add: ray_object_hit_def split: option.splits prod.splits)

lemma ray_object_hit_char:
  assumes "well_formed obj"
  shows "\<exists>n. ray_object_hit ray_origin ray_direction c obj =
           Inr (case intersection_distance ray_origin ray_direction obj of
                  None \<Rightarrow> None
                | Some t \<Rightarrow> if t < c then Some (t, n) else None)"
proof -
  consider (sphere) "ro_type obj = ''sphere''" | (box) "ro_type obj = ''box''"
    | (other) "ro_type obj \<noteq> ''sphere''" "ro_type obj \<noteq> ''box''"
    by blast
  then show ?thesis
  proof cases
    case sphere
    with assms obtain r where r: "ro_radius obj = Some r" "r \<noteq> 0"
      unfolding well_formed_def by blast
    have i: "intersection_distance ray_origin ray_direction obj
             = ray_sphere_distance ray_origin ray_direction (ro_position obj) r"
      using sphere r by (simp add: intersection_distance_def)
    show ?thesis
      unfolding i ray_object_hit_sphere [OF sphere r]
      by (cases "ray_sphere_distance ray_origin ray_direction (ro_position obj) r")
         (simp_all add: vec3_components)
  next
    case box
    with assms obtain h where h: "ro_half_size obj = Some h"
      unfolding well_formed_def by blast
    have i: "intersection_distance ray_origin ray_direction obj
             = (case ray_box_distance ray_origin ray_direction (ro_position obj) h of
                  Some (Some t, n) \<Rightarrow> if t > 0 then Some t else None
                | _ \<Rightarrow> None)"
      using box h by (simp add: intersection_distance_def)
    show ?thesis
    proof (cases "ray_box_distance ray_origin ray_direction (ro_position obj) h")
      case None
      then show ?thesis unfolding i ray_object_hit_box [OF box h] by simp
    next
      case (Some p)
      obtain topt n where p: "p = (topt, n)" by (cases p)
      show ?thesis
        unfolding i ray_object_hit_box [OF box h] Some p
        by (cases topt) (simp_all add: vec3_components)
    qed
  next
    case other
    then show ?thesis
      by (simp add: ray_object_hit_def intersection_distance_def)
  qed
qed


lemma ray_cast_loop_closest:
  assumes "\<forall>obj\<in>set objs. well_formed obj"
  shows "\<exists>res. ray_cast_loop ray_origin ray_direction objs (ch, c) = Inr res \<and>
     ((\<forall>obj\<in>set objs. \<forall>t. intersection_distance ray_origin ray_direction obj = Some t \<longrightarrow> c \<le> t)
        \<longrightarrow> res = ch) \<and>
     (\<not> (\<forall>obj\<in>set objs. \<forall>t. intersection_distance ray_origin ray_direction obj = Some t \<longrightarrow> c \<le> t)
        \<longrightarrow> (\<exists>pre x post t n. objs = pre @ x # post
              \<and> intersection_distance ray_origin ray_direction x = Some t \<and> t < c
              \<and> res = Some \<lparr>h_object = x, h_distance = t,
                             h_point = vadd ray_origin (smul ray_direction t), h_normal = n\<rparr>
              \<and> (\<forall>y\<in>set pre. \<forall>u. intersection_distance ray_origin ray_direction y = Some u \<longrightarrow> t < u)
              \<and> (\<forall>y\<in>set post. \<forall>u. intersection_distance ray_origin ray_direction y = Some u \<longrightarrow> t \<le> u)))"
  using assms
proof (induction objs arbitrary: ch c)
  case Nil
  show ?case by simp
next
  case (Cons obj objs)
  let ?idist = "intersection_distance ray_origin ray_direction"
  let ?far = "\<lambda>c objs. \<forall>obj\<in>set objs. \<forall>t. ?idist obj = Some t \<longrightarrow> c \<le> t"
  have wf: "well_formed obj" and wfs: "\<forall>obj\<in>set objs. well_formed obj"
    using Cons.prems by auto
  obtain n where hit: "ray_object_hit ray_origin ray_direction c obj =
           Inr (case ?idist obj of None \<Rightarrow> None
                | Some t \<Rightarrow> if t < c then Some (t, n) else None)"
    using ray_object_hit_char [OF wf] by blast
  show ?case
  proof (cases "\<exists>t. ?idist obj = Some t \<and> t < c")
    case True
    then obtain t where t: "?idist obj = Some t" "t < c" by blast
    let ?h = "\<lparr>h_object = obj, h_distance = t,
               h_point = vadd ray_origin (smul ray_direction t), h_normal = n\<rparr>"
    have step: "ray_cast_loop ray_origin ray_direction (obj # objs) (ch, c)
                = ray_cast_loop ray_origin ray_direction objs (Some ?h, t)"
      using t by (simp add: hit)
    from Cons.IH [OF wfs, of "Some ?h" t] obtain res where
      res: "ray_cast_loop ray_origin ray_direction objs (Some ?h, t) = Inr res"
      and same: "?far t objs \<Longrightarrow> res = Some ?h"
      and better: "\<not> ?far t objs \<Longrightarrow>
         \<exists>pre x post t' n'. objs = pre @ x # post \<and> ?idist x = Some t' \<and> t' < t
              \<and> res = Some \<lparr>h_object = x, h_distance = t',
                             h_point = vadd ray_origin (smul ray_direction t'), h_normal = n'\<rparr>
              \<and> (\<forall>y\<in>set pre. \<forall>u. ?idist y = Some u \<longrightarrow> t' < u)
              \<and> (\<forall>y\<in>set post. \<forall>u. ?idist y = Some u \<longrightarrow> t' \<le> u)"
      by blast
    have notfar: "\<not> ?far c (obj # objs)"
      using t by auto
    have "\<exists>pre x post t' n'. obj # objs = pre @ x # post \<and> ?idist x = Some t' \<and> t' < c
              \<and> res = Some \<lparr>h_object = x, h_distance = t',
                             h_point = vadd ray_origin (smul ray_direction t'), h_normal = n'\<rparr>
              \<and> (\<forall>y\<in>set pre. \<forall>u. ?idist y = Some u \<longrightarrow> t' < u)
              \<and> (\<forall>y\<in>set post. \<forall>u. ?idist y = Some u \<longrightarrow> t' \<le> u)"
    proof (cases "?far t objs")
      case True
      with same have r: "res = Some ?h" by blast
      have "obj # objs = [] @ obj # objs" by simp
      moreover have "\<forall>y\<in>set []. \<forall>u. ?idist y = Some u \<longrightarrow> t < u" by simp
      ultimately show ?thesis
        using t r True by blast
    next
      case False
      from better [OF False] obtain pre x post t' n' where
        d: "objs = pre @ x # post" and x: "?idist x = Some t'" and lt: "t' < t"
        and r: "res = Some \<lparr>h_object = x, h_distance = t',
                             h_point = vadd ray_origin (smul ray_direction t'), h_normal = n'\<rparr>"
        and pre: "\<forall>y\<in>set pre. \<forall>u. ?idist y = Some u \<longrightarrow> t' < u"
        and post: "\<forall>y\<in>set post. \<forall>u. ?idist y = Some u \<longrightarrow> t' \<le> u"
        by blast
      have d': "obj # objs = (obj # pre) @ x # post" using d by simp
      have pre': "\<forall>y\<in>set (obj # pre). \<forall>u. ?idist y = Some u \<longrightarrow> t' < u"
        using pre t lt by auto
      have "t' < c" using lt t by simp
      with d' x r pre' post show ?thesis by blast
    qed
    with step res notfar show ?thesis by auto
  next
    case False
    then have none: "\<And>t. ?idist obj = Some t \<Longrightarrow> c \<le> t"
      by (meson not_le_imp_less)
    have step: "ray_cast_loop ray_origin ray_direction (obj # objs) (ch, c)
                = ray_cast_loop ray_origin ray_direction objs (ch, c)"
      using False by (cases "?idist obj") (auto simp add: hit)
    from Cons.IH [OF wfs, of ch c] obtain res where
      res: "ray_cast_loop ray_origin ray_direction objs (ch, c) = Inr res"
      and same: "?far c objs \<Longrightarrow> res = ch"
      and better: "\<not> ?far c objs \<Longrightarrow>
         \<exists>pre x post t' n'. objs = pre @ x # post \<and> ?idist x = Some t' \<and> t' < c
              \<and> res = Some \<lparr>h_object = x, h_distance = t',
                             h_point = vadd ray_origin (smul ray_direction t'), h_normal = n'\<rparr>
              \<and> (\<forall>y\<in>set pre. \<forall>u. ?idist y = Some u \<longrightarrow> t' < u)
              \<and> (\<forall>y\<in>set post. \<forall>u. ?idist y = Some u \<longrightarrow> t' \<le> u)"
      by blast
    have fareq: "?far c (obj # objs) \<longleftrightarrow> ?far c objs"
      using none by auto
    have "\<exists>pre x post t' n'. obj # objs = pre @ x # post \<and> ?idist x = Some t' \<and> t' < c
              \<and> res = Some \<lparr>h_object = x, h_distance = t',
                             h_point = vadd ray_origin (smul ray_direction t'), h_normal = n'\<rparr>
              \<and> (\<forall>y\<in>set pre. \<forall>u. ?idist y = Some u \<longrightarrow> t' < u)
              \<and> (\<forall>y\<in>set post. \<forall>u. ?idist y = Some u \<longrightarrow> t' \<le> u)"
      if nf: "\<not> ?far c objs"
    proof -
      from better [OF nf] obtain pre x post t' n' where
        d: "objs = pre @ x # post" and x: "?idist x = Some t'" and lt: "t' < c"
        and r: "res = Some \<lparr>h_object = x, h_distance = t',
                             h_point = vadd ray_origin (smul ray_direction t'), h_normal = n'\<rparr>"
        and pre: "\<forall>y\<in>set pre. \<forall>u. ?idist y = Some u \<longrightarrow> t' < u"
        and post: "\<forall>y\<in>set post. \<forall>u. ?idist y = Some u \<longrightarrow> t' \<le> u"
        by blast
      have d': "obj # objs = (obj # pre) @ x # post" using d by simp
      have pre': "\<forall>y\<in>set (obj # pre). \<forall>u. ?idist y = Some u \<longrightarrow> t' < u"
        using pre none lt by fastforce
      from d' x lt r pre' post show ?thesis by blast
    qed
    with step res same fareq show ?thesis by auto
  qed
qed


lemma ray_sphere_distance_ahead:
  assumes "dot ray_direction ray_direction = 1" and "0 \<le> ahead" and "0 \<le> r"
  shows "ray_sphere_distance ray_origin ray_direction
           (vadd ray_origin (smul ray_direction ahead)) r = Some (ahead - r)"
proof -
  obtain ox oy oz where o: "ray_origin = (ox, oy, oz)" by (cases ray_origin)
  obtain dx dy dz where d: "ray_direction = (dx, dy, dz)" by (cases ray_direction)
  have unit: "dx * dx + dy * dy + dz * dz = 1"
    using assms(1) unfolding d by simp
  have proj: "dx * ahead * dx + dy * ahead * dy + dz * ahead * dz = ahead"
  proof -
    have "dx * ahead * dx + dy * ahead * dy + dz * ahead * dz = ahead * (dx * dx + dy * dy + dz * dz)"
      by (simp add: algebra_simps)
    then show ?thesis using unit by simp
  qed
  show ?thesis
    unfolding o d ray_sphere_distance_def
    using assms(2,3) by (simp add: proj Let_def)
qed

lemma sphere_normal_ahead:
  assumes "r \<noteq> 0"
  shows "sdiv (vsub (vadd ray_origin (smul ray_direction (ahead - r)))
                    (vadd ray_origin (smul ray_direction ahead))) r = vneg ray_direction"
  using assms by (cases ray_origin; cases ray_direction) (simp add: field_simps)

lemma ray_cast_single_sphere:
  assumes "dot ray_direction ray_direction = 1" and "0 < r" and "0 \<le> ahead"
  shows "ray_cast ray_origin ray_direction max_distance
           [ray_sphere (vadd ray_origin (smul ray_direction ahead)) r]
         = Inr (if ahead - r < max_distance
                then Some \<lparr>h_object = ray_sphere (vadd ray_origin (smul ray_direction ahead)) r,
                           h_distance = ahead - r,
                           h_point = vadd ray_origin (smul ray_direction (ahead - r)),
                           h_normal = vneg ray_direction\<rparr>
                else None)"
proof -
  have rd: "ray_sphere_distance ray_origin ray_direction
              (vadd ray_origin (smul ray_direction ahead)) r = Some (ahead - r)"
    using assms by (intro ray_sphere_distance_ahead) simp_all
  have hit: "ray_object_hit ray_origin ray_direction max_distance
               (ray_sphere (vadd ray_origin (smul ray_direction ahead)) r)
             = Inr (if ahead - r < max_distance then Some (ahead - r, vneg ray_direction) else None)"
    using assms(2)
    by (simp add: ray_object_hit_def ray_sphere_def rd sphere_normal_ahead)
  show ?thesis
    by (simp add: ray_cast_def hit)
qed

text \<open>
  Claim C5, as amended. Among well-formed candidates whose intersection distances are
  not negative, \<open>ray_cast\<close> returns the globally closest intersection whose distance
  is strictly less than \<open>max_distance\<close>: the hit object has the least intersection
  distance of the list, every candidate scanned before it is strictly farther (on an
  exact tie the first object scanned wins), and there is no hit iff every intersection
  is at \<open>max_distance\<close> or beyond. Cast along a unit direction at a single sphere of
  radius \<open>r > 0\<close> centred at distance \<open>ahead \<ge> r\<close> on the ray, it returns the hit at
  distance \<open>ahead - r\<close> when \<open>ahead - r < max_distance\<close>, and no hit when
  \<open>max_distance \<le> ahead - r\<close>.
\<close>

theorem ray_cast_amended:
  "((\<forall>obj\<in>set objects. well_formed obj
        \<and> (\<forall>t. intersection_distance ray_origin ray_direction obj = Some t \<longrightarrow> 0 \<le> t)) \<longrightarrow>
    (\<exists>res. ray_cast ray_origin ray_direction max_distance objects = Inr res \<and>
       (case res of
          None \<Rightarrow> \<forall>obj\<in>set objects. \<forall>t.
                    intersection_distance ray_origin ray_direction obj = Some t \<longrightarrow> max_distance \<le> t
        | Some h \<Rightarrow>
            0 \<le> h_distance h \<and> h_distance h < max_distance
            \<and> h_point h = vadd ray_origin (smul ray_direction (h_distance h))
            \<and> (\<exists>pre post. objects = pre @ h_object h # post
                 \<and> intersection_distance ray_origin ray_direction (h_object h) = Some (h_distance h)
                 \<and> (\<forall>y\<in>set pre. \<forall>u. intersection_distance ray_origin ray_direction y = Some u
                        \<longrightarrow> h_distance h < u)
                 \<and> (\<forall>y\<in>set post. \<forall>u. intersection_distance ray_origin ray_direction y = Some u
                        \<longrightarrow> h_distance h \<le> u)))))
   \<and> (dot ray_direction ray_direction = 1 \<and> 0 < r \<and> r \<le> ahead \<longrightarrow>
        ray_cast ray_origin ray_direction max_distance
          [ray_sphere (vadd ray_origin (smul ray_direction ahead)) r]
        = Inr (if ahead - r < max_distance
               then Some \<lparr>h_object = ray_sphere (vadd ray_origin (smul ray_direction ahead)) r,
                          h_distance = ahead - r,
                          h_point = vadd ray_origin (smul ray_direction (ahead - r)),
                          h_normal = vneg ray_direction\<rparr>
               else None))"
proof (intro conjI impI)
  let ?idist = "intersection_distance ray_origin ray_direction"
  assume a: "\<forall>obj\<in>set objects. well_formed obj \<and> (\<forall>t. ?idist obj = Some t \<longrightarrow> 0 \<le> t)"
  then have wf: "\<forall>obj\<in>set objects. well_formed obj" by blast
  from ray_cast_loop_closest [OF wf, of ray_origin ray_direction None max_distance]
  obtain res where
    res: "ray_cast ray_origin ray_direction max_distance objects = Inr res"
    and same: "(\<forall>obj\<in>set objects. \<forall>t. ?idist obj = Some t \<longrightarrow> max_distance \<le> t) \<Longrightarrow> res = None"
    and better: "\<not> (\<forall>obj\<in>set objects. \<forall>t. ?idist obj = Some t \<longrightarrow> max_distance \<le> t) \<Longrightarrow>
         \<exists>pre x post t n. objects = pre @ x # post \<and> ?idist x = Some t \<and> t < max_distance
              \<and> res = Some \<lparr>h_object = x, h_distance = t,
                             h_point = vadd ray_origin (smul ray_direction t), h_normal = n\<rparr>
              \<and> (\<forall>y\<in>set pre. \<forall>u. ?idist y = Some u \<longrightarrow> t < u)
              \<and> (\<forall>y\<in>set post. \<forall>u. ?idist y = Some u \<longrightarrow> t \<le> u)"
    unfolding ray_cast_def by blast
  show "\<exists>res. ray_cast ray_origin ray_direction max_distance objects = Inr res \<and>
       (case res of
          None \<Rightarrow> \<forall>obj\<in>set objects. \<forall>t. ?idist obj = Some t \<longrightarrow> max_distance \<le> t
        | Some h \<Rightarrow>
            0 \<le> h_distance h \<and> h_distance h < max_distance
            \<and> h_point h = vadd ray_origin (smul ray_direction (h_distance h))
            \<and> (\<exists>pre post. objects = pre @ h_object h # post
                 \<and> ?idist (h_object h) = Some (h_distance h)
                 \<and> (\<forall>y\<in>set pre. \<forall>u. ?idist y = Some u \<longrightarrow> h_distance h < u)
                 \<and> (\<forall>y\<in>set post. \<forall>u. ?idist y = Some u \<longrightarrow> h_distance h \<le> u)))"
  proof (cases "\<forall>obj\<in>set objects. \<forall>t. ?idist obj = Some t \<longrightarrow> max_distance \<le> t")
    case True
    with same have "res = None" by blast
    with res True show ?thesis by simp
  next
    case False
    from better [OF False] obtain pre x post t n where
      d: "objects = pre @ x # post" and x: "?idist x = Some t" and lt: "t < max_distance"
      and r: "res = Some \<lparr>h_object = x, h_distance = t,
                           h_point = vadd ray_origin (smul ray_direction t), h_normal = n\<rparr>"
      and pre: "\<forall>y\<in>set pre. \<forall>u. ?idist y = Some u \<longrightarrow> t < u"
      and post: "\<forall>y\<in>set post. \<forall>u. ?idist y = Some u \<longrightarrow> t \<le> u"
      by blast
    have "x \<in> set objects" using d by simp
    with a x have nonneg: "0 \<le> t" by blast
    have "\<exists>pre post. objects = pre @ x # post \<and> ?idist x = Some t
            \<and> (\<forall>y\<in>set pre. \<forall>u. ?idist y = Some u \<longrightarrow> t < u)
            \<and> (\<forall>y\<in>set post. \<forall>u. ?idist y = Some u \<longrightarrow> t \<le> u)"
      using d x pre post by blast
    with res r nonneg lt show ?thesis by simp
  qed
next
  assume "dot ray_direction ray_direction = 1 \<and> 0 < r \<and> r \<le> ahead"
  then show "ray_cast ray_origin ray_direction max_distance
          [ray_sphere (vadd ray_origin (smul ray_direction ahead)) r]
        = Inr (if ahead - r < max_distance
               then Some \<lparr>h_object = ray_sphere (vadd ray_origin (smul ray_direction ahead)) r,
                          h_distance = ahead - r,
                          h_point = vadd ray_origin (smul ray_direction (ahead - r)),
                          h_normal = vneg ray_direction\<rparr>
               else None)"
    by (intro ray_cast_single_sphere) simp_all
qed

lemma box_ahead_distance:
  "ray_box_distance (0, 0, 0) (0, 0, 1) (0, 0, 5) (1, 1, 1) = Some (Some 4, (0, 0, -1))"
  by (simp add: ray_box_distance_def zeros_def)

lemma sphere_ahead_distance:
  "ray_sphere_distance (0, 0, 0) (0, 0, 1) (0, 0, 3) 1 = Some 2"
  "ray_sphere_distance (0, 0, 0) (0, 0, 1) (0, 0, 5) 1 = Some 4"
  by (simp_all add: ray_sphere_distance_def)

text \<open>
  Claim C5: the amended statement along \<open>+Z\<close> from the origin: a box centred at distance 5 with
  a nearer sphere listed after it (the sphere, at distance 2, is the hit); the box alone
  (distance 4, normal \<open>-Z\<close>); a sphere of radius 1 at distance 5 (hit at 4 within 10,
  no hit within 3).
\<close>

theorem ray_cast_amended_witness:
  "ray_cast (0, 0, 0) (0, 0, 1) 10 [ray_box (0, 0, 5) (1, 1, 1), ray_sphere (0, 0, 3) 1]
     = Inr (Some \<lparr>h_object = ray_sphere (0, 0, 3) 1, h_distance = 2, h_point = (0, 0, 2),
                  h_normal = (0, 0, -1)\<rparr>)
   \<and> ray_cast (0, 0, 0) (0, 0, 1) 10 [ray_box (0, 0, 5) (1, 1, 1)]
     = Inr (Some \<lparr>h_object = ray_box (0, 0, 5) (1, 1, 1), h_distance = 4, h_point = (0, 0, 4),
                  h_normal = (0, 0, -1)\<rparr>)
   \<and> ray_cast (0, 0, 0) (0, 0, 1) 10 [ray_sphere (0, 0, 5) 1]
     = Inr (Some \<lparr>h_object = ray_sphere (0, 0, 5) 1, h_distance = 4, h_point = (0, 0, 4),
                  h_normal = (0, 0, -1)\<rparr>)
   \<and> ray_cast (0, 0, 0) (0, 0, 1) 3 [ray_sphere (0, 0, 5) 1] = Inr None"
  using ray_cast_amended [where objects = "[ray_box (0, 0, 5) (1, 1, 1), ray_sphere (0, 0, 3) 1]"
      and ray_origin = "(0, 0, 0)" and ray_direction = "(0, 0, 1)" and max_distance = 10
      and r = 1 and ahead = 5]
    ray_cast_amended [where objects = "[ray_box (0, 0, 5) (1, 1, 1)]"
      and ray_origin = "(0, 0, 0)" and ray_direction = "(0, 0, 1)" and max_distance = 3
      and r = 1 and ahead = 5]
  by (simp add: ray_cast_def ray_object_hit_def ray_box_def ray_sphere_def
      box_ahead_distance sphere_ahead_distance)

text \<open>
  Claim C5 as stated fails at the upper end of the interval: the sphere of radius 1 at
  distance 5 is met at distance 4, which lies within \<open>[0, 4]\<close>, and \<open>ray_cast\<close> with
  \<open>max_distance = 4\<close> reports no hit.
\<close>

theorem ray_cast_boundary_counterexample:
  "intersection_distance (0, 0, 0) (0, 0, 1) (ray_sphere (0, 0, 5) 1) = Some 4
   \<and> (0 :: real) \<le> 4 \<and> (4 :: real) \<le> 4
   \<and> ray_cast (0, 0, 0) (0, 0, 1) 4 [ray_sphere (0, 0, 5) 1] = Inr None"
  by (simp add: ray_cast_def ray_object_hit_def intersection_distance_def ray_sphere_def
      sphere_ahead_distance)

text \<open>
  Outside the amended statement: from inside a sphere the near intersection lies
  behind the origin, and the sphere branch, unlike the box branch, has no test on the
  sign of the distance.
\<close>

lemma ray_cast_inside_sphere:
  "ray_cast (0, 0, 0) (0, 0, 1) 10 [ray_sphere (0, 0, 1 / 2) 1]
     = Inr (Some \<lparr>h_object = ray_sphere (0, 0, 1 / 2) 1, h_distance = - 1 / 2,
                  h_point = (0, 0, - 1 / 2), h_normal = (0, 0, -1)\<rparr>)"
  by (simp add: ray_cast_def ray_object_hit_def ray_sphere_def ray_sphere_distance_def)

end
